theory Spec2Isabelle
  imports Main "HOL-Library.Signed_Division"
begin

section \<open>Machine integers and the C++ string operations used by patternlayout.cxx\<close>

text \<open>
  The code stores widths, lengths and positions in C++ \<open>int\<close> (32 bits). They are
  modelled as \<open>int\<close>; \<open>to_int\<close> is the two's-complement conversion to that type, and
  it is written wherever the source converts a \<open>size_t\<close> to \<open>int\<close> or accumulates
  decimal digits (signed overflow is undefined in C++; the model takes the wrap-around
  of the usual implementations). \<open>size_t_of_int\<close> is the conversion of an \<open>int\<close> to
  the 64-bit unsigned \<open>std::string::size_type\<close>, which maps \<open>-1\<close> to \<open>npos\<close>.
\<close>

definition to_int :: "int \<Rightarrow> int" where
  "to_int i = (i + 2147483648) mod 4294967296 - 2147483648"

definition size_t_of_int :: "int \<Rightarrow> nat" where
  "size_t_of_int i = nat (i mod 18446744073709551616)"

datatype error =
    OutOfRange            \<comment> \<open>\<open>std::out_of_range\<close> thrown by \<open>std::string::substr\<close>\<close>
  | DivisionByZero        \<comment> \<open>integer division by zero (undefined behaviour, a trap)\<close>
  | RuntimeError string   \<comment> \<open>\<open>std::runtime_error\<close> with its message\<close>
  | NullDereference       \<comment> \<open>a call through a null converter pointer\<close>
  | NullTimeDereference   \<comment> \<open>\<open>strftime\<close> reading through a null \<open>struct tm\<close> pointer\<close>

text \<open>\<open>s.substr(pos)\<close>: the argument is converted to \<open>size_type\<close>, so a negative
  \<open>int\<close> becomes a huge position; a position beyond the size throws.\<close>

definition substr :: "string \<Rightarrow> int \<Rightarrow> error + string" where
  "substr s pos =
     (if 0 \<le> pos \<and> pos \<le> int (length s) then Inr (drop (nat pos) s) else Inl OutOfRange)"

text \<open>\<open>s.substr(pos, n)\<close> for a position inside the string.\<close>

definition substr_n :: "string \<Rightarrow> nat \<Rightarrow> nat \<Rightarrow> string" where
  "substr_n s pos n = take n (drop pos s)"

text \<open>\<open>s.rfind(c, pos)\<close>: the greatest index \<open>i \<le> min pos (size - 1)\<close> with
  \<open>s[i] = c\<close>; \<open>None\<close> stands for \<open>npos\<close>.\<close>

fun rfind_upto :: "string \<Rightarrow> char \<Rightarrow> nat \<Rightarrow> nat option" where
  "rfind_upto s c 0 = (if s ! 0 = c then Some 0 else None)"
| "rfind_upto s c (Suc n) = (if s ! Suc n = c then Some (Suc n) else rfind_upto s c n)"

definition rfind :: "string \<Rightarrow> char \<Rightarrow> nat \<Rightarrow> nat option" where
  "rfind s c pos = (if s = [] then None else rfind_upto s c (min pos (length s - 1)))"

text \<open>\<open>s.find_first_of(c, pos)\<close>: the least index \<open>i \<ge> pos\<close> with \<open>s[i] = c\<close>.\<close>

fun find_in :: "string \<Rightarrow> char \<Rightarrow> nat \<Rightarrow> nat option" where
  "find_in [] c i = None"
| "find_in (x # xs) c i = (if x = c then Some i else find_in xs c (Suc i))"

definition find_first_of :: "string \<Rightarrow> char \<Rightarrow> nat \<Rightarrow> nat option" where
  "find_first_of s c pos = find_in (drop pos s) c pos"

text \<open>The decimal text that \<open>operator<<\<close> writes for an integer.\<close>

fun digits_of_nat :: "nat \<Rightarrow> string" where
  "digits_of_nat n =
     (if n < 10 then [''0123456789'' ! n]
      else digits_of_nat (n div 10) @ [''0123456789'' ! (n mod 10)])"

declare digits_of_nat.simps [simp del]

definition show_int :: "int \<Rightarrow> string" where
  "show_int i = (if i < 0 then CHR ''-'' # digits_of_nat (nat (- i)) else digits_of_nat (nat i))"


section \<open>Data model\<close>

record FormattingInfo =
  minLen :: int
  maxLen :: int
  leftAlign :: bool

text \<open>\<open>FormattingInfo::reset\<close>, which the constructor calls too.\<close>

definition reset :: "FormattingInfo \<Rightarrow> FormattingInfo" where
  "reset fi = fi\<lparr>minLen := - 1, maxLen := 0x7FFFFFFF, leftAlign := False\<rparr>"

definition new_FormattingInfo :: FormattingInfo where
  "new_FormattingInfo = reset \<lparr>minLen = 0, maxLen = 0, leftAlign = False\<rparr>"

text \<open>The event record is declared outside this file; the fields are the ones the
  converters read. \<open>file'\<close> (the member \<open>file\<close>) is a \<open>const char*\<close> that may be null, \<open>thread\<close> is the
  text that \<open>operator<<\<close> writes for the thread identifier.\<close>

record InternalLoggingEvent =
  message :: string
  loggerName :: string
  ll :: int
  ndc :: string
  thread :: string
  timestamp :: int
  clock_ticks :: int
  file' :: "string option"
  line :: int

record tm =
  tm_sec :: int
  tm_min :: int
  tm_hour :: int
  tm_mday :: int
  tm_mon :: int
  tm_year :: int

text \<open>What the platform and the rest of the library supply: the macro
  \<open>CLOCKS_PER_SEC\<close>, \<open>LogLevelManager::toString\<close>, \<open>gmtime\<close>, \<open>localtime\<close>, and
  the text \<open>strftime\<close> produces for a template and a broken-down time (\<open>None\<close> when
  it rejects the template). \<open>gmtime\<close> and \<open>localtime\<close> return a pointer, which is
  null (\<open>None\<close>) for a timestamp they cannot convert, one whose year does not fit an
  \<open>int\<close>.\<close>

record platform =
  CLOCKS_PER_SEC :: int
  toString :: "int \<Rightarrow> string"
  gmtime :: "int \<Rightarrow> tm option"
  localtime :: "int \<Rightarrow> tm option"
  strftime_text :: "string \<Rightarrow> tm \<Rightarrow> string option"

definition MILLIS_PER_SEC :: int where
  "MILLIS_PER_SEC = 1000"

definition BUFFER_SIZE :: nat where
  "BUFFER_SIZE = 30"

text \<open>\<open>strftime(buffer, maxsize, format, time)\<close>: the number of bytes written
  without the terminating NUL, together with the bytes; \<open>0\<close> when the text and its NUL
  do not fit into \<open>maxsize\<close> bytes. It reads the broken-down time through the pointer
  \<open>time\<close>, so a null pointer is a crash.\<close>

definition strftime ::
  "platform \<Rightarrow> nat \<Rightarrow> string \<Rightarrow> tm option \<Rightarrow> error + nat \<times> string" where
  "strftime pf maxsize format time =
     (case time of
        None \<Rightarrow> Inl NullTimeDereference
      | Some t \<Rightarrow>
          (case strftime_text pf format t of
             None \<Rightarrow> Inr (0, [])
           | Some r \<Rightarrow> if length r < maxsize then Inr (length r, r) else Inr (0, [])))"

datatype Type =
    RELATIVE_TIME_CONVERTER
  | THREAD_CONVERTER
  | LOGLEVEL_CONVERTER
  | NDC_CONVERTER
  | MESSAGE_CONVERTER
  | NEWLINE_CONVERTER
  | FILE_CONVERTER
  | LINE_CONVERTER
  | FULL_LOCATION_CONVERTER

text \<open>The converter classes. A Basic converter carries its constant member
  \<open>CLOCKS_PER_MILLIS\<close>; a Date converter its format and \<open>use_gmtime\<close>.\<close>

datatype PatternConverter =
    LiteralPatternConverter string
  | BasicPatternConverter FormattingInfo int Type
  | LoggerPatternConverter FormattingInfo int
  | DatePatternConverter FormattingInfo string bool

datatype level = DEBUG | WARN | ERROR

type_synonym loglog = "(level \<times> string) list"

text \<open>The \<open>FormattingInfo\<close> the base-class constructor copied; the Literal
  constructor passes a fresh \<open>FormattingInfo()\<close>.\<close>

fun info :: "PatternConverter \<Rightarrow> FormattingInfo" where
  "info (LiteralPatternConverter str) = new_FormattingInfo"
| "info (BasicPatternConverter i cpm ty) = i"
| "info (LoggerPatternConverter i precision) = i"
| "info (DatePatternConverter i format use_gmtime) = i"

text \<open>The \<open>BasicPatternConverter\<close> constructor, with the diagnostics it emits.\<close>

definition new_BasicPatternConverter ::
  "platform \<Rightarrow> FormattingInfo \<Rightarrow> Type \<Rightarrow> PatternConverter \<times> loglog" where
  "new_BasicPatternConverter pf i ty =
     (BasicPatternConverter i (CLOCKS_PER_SEC pf sdiv MILLIS_PER_SEC) ty,
      if ty = RELATIVE_TIME_CONVERTER \<and> CLOCKS_PER_SEC pf < MILLIS_PER_SEC
      then [(ERROR, ''RELATIVE_TIME will not display correctly on this platform'')]
      else [])"


section \<open>Converters\<close>

text \<open>The \<open>switch\<close> of \<open>BasicPatternConverter::convert\<close>, case by case. Every value
  of \<open>Type\<close> has a case, so the \<open>return\<close> after the \<open>switch\<close> is not reached.
  The division by \<open>CLOCKS_PER_MILLIS\<close> has no guard in the source.\<close>

fun BasicPatternConverter_convert ::
  "platform \<Rightarrow> int \<Rightarrow> Type \<Rightarrow> InternalLoggingEvent \<Rightarrow> error + string" where
  "BasicPatternConverter_convert pf cpm LOGLEVEL_CONVERTER event = Inr (toString pf (ll event))"
| "BasicPatternConverter_convert pf cpm NDC_CONVERTER event = Inr (ndc event)"
| "BasicPatternConverter_convert pf cpm MESSAGE_CONVERTER event = Inr (message event)"
| "BasicPatternConverter_convert pf cpm NEWLINE_CONVERTER event = Inr [CHR 0x0A]"
| "BasicPatternConverter_convert pf cpm FILE_CONVERTER event =
     Inr (case file' event of Some f \<Rightarrow> f | None \<Rightarrow> [])"
| "BasicPatternConverter_convert pf cpm RELATIVE_TIME_CONVERTER event =
     (if cpm = 0 then Inl DivisionByZero else Inr (show_int (clock_ticks event sdiv cpm)))"
| "BasicPatternConverter_convert pf cpm THREAD_CONVERTER event = Inr (thread event)"
| "BasicPatternConverter_convert pf cpm LINE_CONVERTER event =
     (if line event \<noteq> - 1 then Inr (show_int (line event)) else Inr [])"
| "BasicPatternConverter_convert pf cpm FULL_LOCATION_CONVERTER event =
     (case file' event of
        Some f \<Rightarrow> Inr (f @ [CHR '':''] @ show_int (line event))
      | None \<Rightarrow> Inr '':'')"

text \<open>The loop of \<open>LoggerPatternConverter::convert\<close>: \<open>i\<close> counts down from
  \<open>precision\<close>, \<open>end'\<close> is the variable \<open>end\<close>. The test \<open>end == npos\<close> is the
  \<open>None\<close> branch: \<open>npos\<close> is stored as \<open>-1\<close>, and an index found in a name shorter
  than \<open>2^31\<close> is stored as it is.\<close>

fun rfind_loop :: "string \<Rightarrow> nat \<Rightarrow> int \<Rightarrow> error + string" where
  "rfind_loop name 0 end' = substr name (end' + 1)"
| "rfind_loop name (Suc i) end' =
     (case rfind name (CHR ''.'') (size_t_of_int (end' - 1)) of
        None \<Rightarrow> Inr name
      | Some e \<Rightarrow> rfind_loop name i (to_int (int e)))"

definition LoggerPatternConverter_convert ::
  "int \<Rightarrow> InternalLoggingEvent \<Rightarrow> error + string" where
  "LoggerPatternConverter_convert precision event =
     (let name = loggerName event in
      if precision \<le> 0 then Inr name
      else
        let len = to_int (int (length name));
            end' = len - 1
        in rfind_loop name (nat precision) end')"

text \<open>\<open>DatePatternConverter::convert\<close>. The pointer \<open>gmtime\<close> or \<open>localtime\<close>
  returns goes to \<open>strftime\<close> as it is; the source has no test for null.\<close>

definition DatePatternConverter_convert ::
  "platform \<Rightarrow> string \<Rightarrow> bool \<Rightarrow> InternalLoggingEvent \<Rightarrow> error + string" where
  "DatePatternConverter_convert pf format use_gmtime event =
     (let time = (if use_gmtime then gmtime pf (timestamp event)
                  else localtime pf (timestamp event))
      in case strftime pf BUFFER_SIZE format time of
           Inl e \<Rightarrow> Inl e
         | Inr (result, buffer) \<Rightarrow>
             if result > 0 then Inr (take result buffer) else Inr ''INVALID DATE PATTERN'')"

text \<open>The virtual \<open>convert\<close>.\<close>

fun convert :: "platform \<Rightarrow> PatternConverter \<Rightarrow> InternalLoggingEvent \<Rightarrow> error + string" where
  "convert pf (LiteralPatternConverter str) event = Inr str"
| "convert pf (BasicPatternConverter i cpm ty) event = BasicPatternConverter_convert pf cpm ty event"
| "convert pf (LoggerPatternConverter i precision) event =
     LoggerPatternConverter_convert precision event"
| "convert pf (DatePatternConverter i format use_gmtime) event =
     DatePatternConverter_convert pf format use_gmtime event"

text \<open>\<open>PatternConverter::formatAndAppend\<close>; the result is the text appended to the
  output stream.\<close>

definition PatternConverter_formatAndAppend ::
  "platform \<Rightarrow> PatternConverter \<Rightarrow> InternalLoggingEvent \<Rightarrow> error + string" where
  "PatternConverter_formatAndAppend pf c event =
     (case convert pf c event of
        Inl e \<Rightarrow> Inl e
      | Inr s \<Rightarrow>
          let len = to_int (int (length s)) in
          if len > maxLen (info c) then substr s (len - maxLen (info c))
          else if len < minLen (info c) then
            (if leftAlign (info c)
             then Inr (s @ replicate (nat (minLen (info c) - len)) (CHR '' ''))
             else Inr (replicate (nat (minLen (info c) - len)) (CHR '' '') @ s))
          else Inr s)"


section \<open>The pattern parser\<close>

datatype ParserState =
    LITERAL_STATE
  | CONVERTER_STATE
  | MINUS_STATE
  | DOT_STATE
  | MIN_STATE
  | MAX_STATE

text \<open>The members of \<open>PatternParser\<close>. The converter list holds pointers, so a
  slot is an option (\<open>None\<close> is the null pointer). \<open>pos\<close> only grows from \<open>0\<close> and is
  a \<open>nat\<close>; it and the indices \<open>find_first_of\<close> returns fit the source's \<open>int\<close>
  for patterns shorter than \<open>2^31\<close>. \<open>diag\<close> is not a member: it collects what the
  parser sends to the process-wide \<open>getLogLog()\<close>.\<close>

record PatternParser =
  pattern :: string
  formattingInfo :: FormattingInfo
  list :: "PatternConverter option list"
  state :: ParserState
  pos :: nat
  currentLiteral :: string
  diag :: loglog

definition new_PatternParser :: "string \<Rightarrow> PatternParser" where
  "new_PatternParser pat =
     \<lparr>pattern = pat, formattingInfo = new_FormattingInfo, list = [],
      state = LITERAL_STATE, pos = 0, currentLiteral = [], diag = []\<rparr>"

definition ESCAPE_CHAR :: char where
  "ESCAPE_CHAR = CHR ''%''"

definition is_digit :: "char \<Rightarrow> bool" where
  "is_digit c = ((48::nat) \<le> of_char c \<and> (of_char c :: nat) \<le> 57)"

definition digit_val :: "char \<Rightarrow> int" where
  "digit_val c = int (of_char c) - 48"

text \<open>\<open>FormattingInfo::dump\<close>: the debug line it sends to the log.\<close>

definition dump :: "FormattingInfo \<Rightarrow> level \<times> string" where
  "dump fi =
     (DEBUG, ''min='' @ show_int (minLen fi) @ '', max='' @ show_int (maxLen fi)
             @ '', leftAlign='' @ (if leftAlign fi then ''true'' else ''false''))"

text \<open>The C library's \<open>atoi\<close>: leading white space, an optional sign, then the
  decimal digits up to the first other character; \<open>0\<close> when there is no digit.\<close>

definition isspace :: "char \<Rightarrow> bool" where
  "isspace c = (c = CHR '' '' \<or> ((9::nat) \<le> of_char c \<and> (of_char c :: nat) \<le> 13))"

fun atoi_digits :: "int \<Rightarrow> string \<Rightarrow> int" where
  "atoi_digits acc [] = acc"
| "atoi_digits acc (c # cs) =
     (if is_digit c then atoi_digits (acc * 10 + digit_val c) cs else acc)"

definition atoi :: "string \<Rightarrow> int" where
  "atoi s =
     (case dropWhile isspace s of
        [] \<Rightarrow> 0
      | c # cs \<Rightarrow>
          if c = CHR ''-'' then to_int (- atoi_digits 0 cs)
          else if c = CHR ''+'' then to_int (atoi_digits 0 cs)
          else to_int (atoi_digits 0 (c # cs)))"

definition extractOption :: "PatternParser \<Rightarrow> string \<times> PatternParser" where
  "extractOption p =
     (if pos p < length (pattern p) \<and> pattern p ! pos p = CHR ''{'' then
        (case find_first_of (pattern p) (CHR ''}'') (pos p) of
           Some end' \<Rightarrow>
             if end' > pos p
             then (substr_n (pattern p) (pos p + 1) (end' - pos p - 1), p\<lparr>pos := end' + 1\<rparr>)
             else ([], p)
         | None \<Rightarrow> ([], p))
      else ([], p))"

definition extractPrecisionOption :: "PatternParser \<Rightarrow> int \<times> PatternParser" where
  "extractPrecisionOption p =
     (let (opt, p') = extractOption p
      in (if length opt > 0 then atoi opt else 0, p'))"

text \<open>A Basic converter built for the current \<open>formattingInfo\<close>, with the
  constructor's diagnostics sent to the log.\<close>

definition basic :: "platform \<Rightarrow> Type \<Rightarrow> PatternParser \<Rightarrow> PatternConverter option \<times> PatternParser" where
  "basic pf ty p =
     (let (pc, d) = new_BasicPatternConverter pf (formattingInfo p) ty
      in (Some pc, p\<lparr>diag := diag p @ d\<rparr>))"

definition finalizeConverter :: "platform \<Rightarrow> char \<Rightarrow> PatternParser \<Rightarrow> PatternParser" where
  "finalizeConverter pf c p =
     (let (pc, p1) =
        (if c = CHR ''c'' then
           (let (r, p') = extractPrecisionOption p
            in (Some (LoggerPatternConverter (formattingInfo p') r),
                p'\<lparr>diag := diag p' @ [(DEBUG, ''LOGGER converter.''), dump (formattingInfo p')]\<rparr>))
         else if c = CHR ''d'' \<or> c = CHR ''D'' then
           (let (dOpt, p') = extractOption p;
                dOpt' = (if length dOpt = 0 then ''%Y-%m-%d %H:%M:%S'' else dOpt);
                use_gmtime = (c = CHR ''d'')
            in (Some (DatePatternConverter (formattingInfo p') dOpt' use_gmtime), p'))
         else if c = CHR ''F'' then basic pf FILE_CONVERTER p
         else if c = CHR ''l'' then basic pf FULL_LOCATION_CONVERTER p
         else if c = CHR ''L'' then basic pf LINE_CONVERTER p
         else if c = CHR ''m'' then basic pf MESSAGE_CONVERTER p
         else if c = CHR ''n'' then basic pf NEWLINE_CONVERTER p
         else if c = CHR ''p'' then basic pf LOGLEVEL_CONVERTER p
         else if c = CHR ''r'' then basic pf RELATIVE_TIME_CONVERTER p
         else if c = CHR ''t'' then basic pf THREAD_CONVERTER p
         else if c = CHR ''x'' then basic pf NDC_CONVERTER p
         else
           (Some (LiteralPatternConverter (currentLiteral p)),
            p\<lparr>diag := diag p @
               [(ERROR, ''Unexpected char ['' @ [c] @ ''] at position '' @ show_int (int (pos p))
                        @ '' in conversion patterrn.'')]\<rparr>))
      in p1\<lparr>currentLiteral := [], list := list p1 @ [pc], state := LITERAL_STATE,
             formattingInfo := reset (formattingInfo p1)\<rparr>)"

text \<open>One iteration of the \<open>while\<close> loop of \<open>PatternParser::parse\<close>, entered with
  \<open>pos < pattern.length()\<close>. \<open>MINUS_STATE\<close> has no case in the \<open>switch\<close>.\<close>

definition parse_step :: "platform \<Rightarrow> PatternParser \<Rightarrow> PatternParser" where
  "parse_step pf p0 =
     (let c = pattern p0 ! pos p0;
          p = p0\<lparr>pos := pos p0 + 1\<rparr>
      in case state p of
           LITERAL_STATE \<Rightarrow>
             if pos p = length (pattern p) then p\<lparr>currentLiteral := currentLiteral p @ [c]\<rparr>
             else if c = ESCAPE_CHAR then
               (if pattern p ! pos p = ESCAPE_CHAR then
                  p\<lparr>currentLiteral := currentLiteral p @ [c], pos := pos p + 1\<rparr>
                else if pattern p ! pos p = CHR ''n'' then
                  p\<lparr>currentLiteral := currentLiteral p @ [CHR 0x0A], pos := pos p + 1\<rparr>
                else
                  (let p1 = (if length (currentLiteral p) \<noteq> 0
                             then p\<lparr>list := list p @ [Some (LiteralPatternConverter (currentLiteral p))]\<rparr>
                             else p)
                   in p1\<lparr>currentLiteral := [c], state := CONVERTER_STATE,
                          formattingInfo := reset (formattingInfo p1)\<rparr>))
             else p\<lparr>currentLiteral := currentLiteral p @ [c]\<rparr>
         | CONVERTER_STATE \<Rightarrow>
             (let p1 = p\<lparr>currentLiteral := currentLiteral p @ [c]\<rparr> in
              if c = CHR ''-'' then p1\<lparr>formattingInfo := (formattingInfo p1)\<lparr>leftAlign := True\<rparr>\<rparr>
              else if c = CHR ''.'' then p1\<lparr>state := DOT_STATE\<rparr>
              else if is_digit c then
                p1\<lparr>formattingInfo := (formattingInfo p1)\<lparr>minLen := digit_val c\<rparr>, state := MIN_STATE\<rparr>
              else finalizeConverter pf c p1)
         | MIN_STATE \<Rightarrow>
             (let p1 = p\<lparr>currentLiteral := currentLiteral p @ [c]\<rparr> in
              if is_digit c then
                p1\<lparr>formattingInfo := (formattingInfo p1)
                      \<lparr>minLen := to_int (minLen (formattingInfo p1) * 10 + digit_val c)\<rparr>\<rparr>
              else if c = CHR ''.'' then p1\<lparr>state := DOT_STATE\<rparr>
              else finalizeConverter pf c p1)
         | DOT_STATE \<Rightarrow>
             (let p1 = p\<lparr>currentLiteral := currentLiteral p @ [c]\<rparr> in
              if is_digit c then
                p1\<lparr>formattingInfo := (formattingInfo p1)\<lparr>maxLen := digit_val c\<rparr>, state := MAX_STATE\<rparr>
              else
                p1\<lparr>diag := diag p1 @
                      [(ERROR, ''Error occured in position '' @ show_int (int (pos p1))
                               @ [CHR ''.'', CHR 0x0A] @ '' Was expecting digit, instead got char ''
                               @ [CHR 0x22, c, CHR 0x22, CHR ''.''])],
                    state := LITERAL_STATE\<rparr>)
         | MAX_STATE \<Rightarrow>
             (let p1 = p\<lparr>currentLiteral := currentLiteral p @ [c]\<rparr> in
              if is_digit c then
                p1\<lparr>formattingInfo := (formattingInfo p1)
                      \<lparr>maxLen := to_int (maxLen (formattingInfo p1) * 10 + digit_val c)\<rparr>\<rparr>
              else (finalizeConverter pf c p1)\<lparr>state := LITERAL_STATE\<rparr>)
         | MINUS_STATE \<Rightarrow> p)"

text \<open>The \<open>while\<close> loop; every iteration moves \<open>pos\<close> forward, so it ends.\<close>

function parse_loop :: "platform \<Rightarrow> PatternParser \<Rightarrow> PatternParser" where
  "parse_loop pf p = (if pos p < length (pattern p) then parse_loop pf (parse_step pf p) else p)"
  by pat_completeness auto

text \<open>\<open>PatternParser::parse\<close>: the loop from position \<open>0\<close>, then the flush of a
  pending literal. The returned parser holds the converter list and the diagnostics.\<close>

definition parse :: "platform \<Rightarrow> PatternParser \<Rightarrow> PatternParser" where
  "parse pf p0 =
     (let p = parse_loop pf (p0\<lparr>pos := 0\<rparr>)
      in if length (currentLiteral p) \<noteq> 0
         then p\<lparr>list := list p @ [Some (LiteralPatternConverter (currentLiteral p))]\<rparr>
         else p)"


section \<open>The layout\<close>

record PatternLayout =
  layout_pattern :: string
  parsedPattern :: "PatternConverter option list"

text \<open>The first loop of \<open>PatternLayout::init\<close>: every null slot is reported and
  replaced by an empty Literal converter.\<close>

fun replace_nulls :: "PatternConverter option list \<Rightarrow> PatternConverter option list \<times> loglog" where
  "replace_nulls [] = ([], [])"
| "replace_nulls (it # rest) =
     (case it of
        None \<Rightarrow>
          (let (rest', d) = replace_nulls rest
           in (Some (LiteralPatternConverter []) # rest',
               (ERROR, ''Parsed Pattern created a NULL PatternConverter'') # d))
      | Some c \<Rightarrow> (let (rest', d) = replace_nulls rest in (Some c # rest', d)))"

text \<open>What \<open>PatternLayout::init\<close> does to \<open>parsedPattern\<close> once the parser has
  returned it: the loop over the slots, then the test for an empty sequence, which
  appends the default message converter. The result is the sequence and what was sent
  to the log.\<close>

definition validate ::
  "platform \<Rightarrow> PatternConverter option list \<Rightarrow> PatternConverter option list \<times> loglog" where
  "validate pf parsedPattern0 =
     (let (parsed, d1) = replace_nulls parsedPattern0
      in if length parsed = 0 then
           (let (pc, d2) = new_BasicPatternConverter pf new_FormattingInfo MESSAGE_CONVERTER
            in (parsed @ [Some pc],
                d1 @ [(WARN, ''PatternLayout pattern is empty.  Using default...'')] @ d2))
         else (parsed, d1))"

text \<open>\<open>PatternLayout::init\<close>, with everything sent to the log while it runs.\<close>

definition init :: "platform \<Rightarrow> string \<Rightarrow> PatternLayout \<times> loglog" where
  "init pf pat =
     (let p = parse pf (new_PatternParser pat);
          (parsed, d) = validate pf (list p)
      in (\<lparr>layout_pattern = pat, parsedPattern = parsed\<rparr>, diag p @ d))"

text \<open>The two constructors. \<open>Properties\<close> is a map from keys to values;
  \<open>getProperty\<close> gives the empty string for a missing key.\<close>

definition new_PatternLayout :: "platform \<Rightarrow> string \<Rightarrow> PatternLayout \<times> loglog" where
  "new_PatternLayout pf pat = init pf pat"

definition getProperty :: "(string \<rightharpoonup> string) \<Rightarrow> string \<Rightarrow> string" where
  "getProperty properties k = (case properties k of Some v \<Rightarrow> v | None \<Rightarrow> [])"

definition new_PatternLayout_properties ::
  "platform \<Rightarrow> (string \<rightharpoonup> string) \<Rightarrow> error + PatternLayout \<times> loglog" where
  "new_PatternLayout_properties pf properties =
     (if ''Pattern'' \<notin> dom properties
      then Inl (RuntimeError ''Pattern not specified in properties'')
      else Inr (init pf (getProperty properties ''Pattern'')))"

text \<open>\<open>PatternLayout::formatAndAppend\<close>: the converters run in order and their
  texts are appended to the stream; an exception ends the pass.\<close>

fun format_all ::
  "platform \<Rightarrow> PatternConverter option list \<Rightarrow> InternalLoggingEvent \<Rightarrow> error + string" where
  "format_all pf [] event = Inr []"
| "format_all pf (it # rest) event =
     (case it of
        None \<Rightarrow> Inl NullDereference
      | Some c \<Rightarrow>
          (case PatternConverter_formatAndAppend pf c event of
             Inl e \<Rightarrow> Inl e
           | Inr s \<Rightarrow>
               (case format_all pf rest event of
                  Inl e \<Rightarrow> Inl e
                | Inr t \<Rightarrow> Inr (s @ t))))"

definition PatternLayout_formatAndAppend ::
  "platform \<Rightarrow> PatternLayout \<Rightarrow> InternalLoggingEvent \<Rightarrow> error + string" where
  "PatternLayout_formatAndAppend pf layout event = format_all pf (parsedPattern layout) event"


section \<open>A concrete platform and event\<close>

text \<open>A platform with the POSIX value of \<open>CLOCKS_PER_SEC\<close>, a time conversion that
  gives null beyond the timestamps whose year fits an \<open>int\<close>, and a formatter that
  knows two templates; an event without a line number, and the same event with a
  timestamp of \<open>2^62\<close> seconds. The examples below run the model on them.\<close>

definition epoch_tm :: tm where
  "epoch_tm = \<lparr>tm_sec = 0, tm_min = 0, tm_hour = 0, tm_mday = 1, tm_mon = 0, tm_year = 70\<rparr>"

definition sample_platform :: platform where
  "sample_platform =
     \<lparr>CLOCKS_PER_SEC = 1000000,
      toString = (\<lambda>l. if l = 20000 then ''INFO'' else ''DEBUG''),
      gmtime = (\<lambda>t. if - 67768040609740800 \<le> t \<and> t \<le> 67768036191676799
                    then Some epoch_tm else None),
      localtime = (\<lambda>t. if - 67768040609740800 \<le> t \<and> t \<le> 67768036191676799
                       then Some epoch_tm else None),
      strftime_text =
        (\<lambda>f t. if f = ''%Y-%m-%d'' then Some ''1970-01-01''
               else if f = ''%A, %d %B %Y %H:%M:%S'' then Some ''Thursday, 01 January 1970 00:00:00''
               else None)\<rparr>"

definition coarse_platform :: platform where
  "coarse_platform = sample_platform\<lparr>CLOCKS_PER_SEC := 100\<rparr>"

definition sample_event :: InternalLoggingEvent where
  "sample_event =
     \<lparr>message = ''started'', loggerName = ''com.acme.Service'', ll = 20000, ndc = ''ctx'',
      thread = ''1234'', timestamp = 0, clock_ticks = 5000, file' = Some ''a.cxx'', line = - 1\<rparr>"



section \<open>Notions used in the statements\<close>

text \<open>Calendar formatting of a broken-down time fails when the formatter rejects the
  template or when the text with its terminating NUL does not fit the buffer of
  \<open>BUFFER_SIZE\<close> bytes.\<close>

definition formatting_fails :: "platform \<Rightarrow> string \<Rightarrow> tm \<Rightarrow> bool" where
  "formatting_fails pf format t =
     (case strftime_text pf format t of
        None \<Rightarrow> True
      | Some r \<Rightarrow> BUFFER_SIZE < length r + 1)"


text \<open>The indices below \<open>e\<close> at which a name has a dot, from right to left.\<close>

definition dots_below :: "string \<Rightarrow> nat \<Rightarrow> nat list" where
  "dots_below name e = rev (filter (\<lambda>k. name ! k = CHR ''.'') [0..<e])"

text \<open>What a precision \<open>p\<close> keeps of a name when the dots are looked for below index
  \<open>e\<close>: the whole name for \<open>p \<le> 0\<close> or fewer than \<open>p\<close> dots, else the suffix that
  starts one character after the \<open>p\<close>-th dot from the right. With \<open>e = length name\<close>
  these are the words of the specification, which counts every dot of the name.\<close>

definition suffix_after_dot :: "nat \<Rightarrow> int \<Rightarrow> string \<Rightarrow> string" where
  "suffix_after_dot e p name =
     (if p \<le> 0 then name
      else if length (dots_below name e) < nat p then name
      else drop (Suc (dots_below name e ! (nat p - 1))) name)"


text \<open>The converters the parser hands over when it runs on from a state \<open>p\<close>: the
  rest of the loop, then the flush of the pending literal.\<close>

definition compile_from :: "platform \<Rightarrow> PatternParser \<Rightarrow> PatternConverter option list" where
  "compile_from pf p =
     (let q = parse_loop pf p
      in if length (currentLiteral q) \<noteq> 0
         then list q @ [Some (LiteralPatternConverter (currentLiteral q))]
         else list q)"

text \<open>A text written to the stream before a render pass that may throw.\<close>

definition prepend :: "string \<Rightarrow> error + string \<Rightarrow> error + string" where
  "prepend s r = (case r of Inl e \<Rightarrow> Inl e | Inr t \<Rightarrow> Inr (s @ t))"


section \<open>Termination of the parser\<close>

lemma extractOption_pattern: "pattern (snd (extractOption p)) = pattern p"
  by (simp add: extractOption_def split: option.splits)

lemma extractOption_pos: "pos p \<le> pos (snd (extractOption p))"
  by (simp add: extractOption_def split: option.splits)

lemma extractPrecisionOption_pattern: "pattern (snd (extractPrecisionOption p)) = pattern p"
  by (simp add: extractPrecisionOption_def split_beta extractOption_pattern)

lemma extractPrecisionOption_pos: "pos p \<le> pos (snd (extractPrecisionOption p))"
  by (simp add: extractPrecisionOption_def split_beta extractOption_pos)

lemma basic_pattern: "pattern (snd (basic pf ty p)) = pattern p"
  by (simp add: basic_def split_beta)

lemma basic_pos: "pos (snd (basic pf ty p)) = pos p"
  by (simp add: basic_def split_beta)

lemma finalizeConverter_pattern: "pattern (finalizeConverter pf c p) = pattern p"
  by (simp add: finalizeConverter_def split_beta Let_def extractOption_pattern
      extractPrecisionOption_pattern basic_pattern)

lemma finalizeConverter_pos: "pos p \<le> pos (finalizeConverter pf c p)"
  by (simp add: finalizeConverter_def split_beta Let_def extractOption_pos
      extractPrecisionOption_pos basic_pos)

lemma finalizeConverter_pos_less: "n < pos p \<Longrightarrow> n < pos (finalizeConverter pf c p)"
  using finalizeConverter_pos [of p pf c] by simp

lemma parse_step_pattern: "pattern (parse_step pf p) = pattern p"
  by (simp add: parse_step_def Let_def finalizeConverter_pattern split: ParserState.splits)

lemma parse_step_pos: "pos p < pos (parse_step pf p)"
  by (cases "state p")
     (auto simp add: parse_step_def Let_def intro!: finalizeConverter_pos_less)

termination parse_loop
proof (relation "measure (\<lambda>(pf, p). length (pattern p) - pos p)")
  show "wf (measure (\<lambda>(pf, p). length (pattern p) - pos p))" by simp
next
  fix pf and p :: PatternParser
  assume "pos p < length (pattern p)"
  then show "((pf, parse_step pf p), (pf, p)) \<in> measure (\<lambda>(pf, p). length (pattern p) - pos p)"
    using parse_step_pos [of p pf] by (simp add: parse_step_pattern)
qed

declare parse_loop.simps [simp del]

section \<open>The width law\<close>

lemma to_int_id: "- 2147483648 \<le> i \<Longrightarrow> i < 2147483648 \<Longrightarrow> to_int i = i"
  by (simp add: to_int_def)

lemma to_int_length: "length (s :: string) < 2147483648 \<Longrightarrow> to_int (int (length s)) = int (length s)"
  by (simp add: to_int_id)

lemma formatAndAppend_eq:
  assumes "convert pf c event = Inr s" and "0 \<le> maxLen (info c)" and "length s < 2147483648"
  shows "PatternConverter_formatAndAppend pf c event =
     Inr (if int (length s) > maxLen (info c) then drop (length s - nat (maxLen (info c))) s
          else if int (length s) < minLen (info c) then
            (if leftAlign (info c)
             then s @ replicate (nat (minLen (info c)) - length s) (CHR '' '')
             else replicate (nat (minLen (info c)) - length s) (CHR '' '') @ s)
          else s)"
proof -
  have len: "to_int (int (length s)) = int (length s)"
    using assms(3) by (rule to_int_length)
  have n: "nat (int (length s) - maxLen (info c)) = length s - nat (maxLen (info c))"
    using assms(2) by simp
  have m: "nat (minLen (info c) - int (length s)) = nat (minLen (info c)) - length s"
    by simp
  show ?thesis
    using assms(1,2) by (simp add: PatternConverter_formatAndAppend_def len substr_def n m)
qed

text \<open>
  C1. The width law of \<open>PatternConverter::formatAndAppend\<close>, for every converter
  \<open>c\<close> and every string \<open>s\<close> that its \<open>convert\<close> extracts: a string longer than
  \<open>maxLen\<close> is cut to its last \<open>maxLen\<close> characters (the output is a suffix of \<open>s\<close>
  of that length); otherwise a string shorter than \<open>minLen\<close> is padded with spaces to
  \<open>minLen\<close>, on the right when \<open>leftAlign\<close> is set and on the left otherwise;
  otherwise the string is unchanged, and a \<open>minLen\<close> of \<open>-1\<close> never pads. The
  hypotheses are the data model's \<open>maxLen \<ge> 0\<close> and a length that fits the \<open>int\<close>
  the code stores it in.
\<close>

theorem formatAndAppend_width_law:
  assumes "convert pf c event = Inr s"
    and "0 \<le> maxLen (info c)"
    and "length s < 2147483648"
  shows "(int (length s) > maxLen (info c) \<longrightarrow>
            (\<exists>pre out. PatternConverter_formatAndAppend pf c event = Inr out
               \<and> s = pre @ out \<and> int (length out) = maxLen (info c)
               \<and> out = drop (length s - nat (maxLen (info c))) s))
       \<and> (int (length s) \<le> maxLen (info c) \<and> int (length s) < minLen (info c) \<and> leftAlign (info c) \<longrightarrow>
            PatternConverter_formatAndAppend pf c event
              = Inr (s @ replicate (nat (minLen (info c)) - length s) (CHR '' '')))
       \<and> (int (length s) \<le> maxLen (info c) \<and> int (length s) < minLen (info c) \<and> \<not> leftAlign (info c) \<longrightarrow>
            PatternConverter_formatAndAppend pf c event
              = Inr (replicate (nat (minLen (info c)) - length s) (CHR '' '') @ s))
       \<and> (int (length s) \<le> maxLen (info c) \<and> minLen (info c) \<le> int (length s) \<longrightarrow>
            PatternConverter_formatAndAppend pf c event = Inr s)
       \<and> (int (length s) \<le> maxLen (info c) \<and> minLen (info c) = - 1 \<longrightarrow>
            PatternConverter_formatAndAppend pf c event = Inr s)"
proof -
  let ?f = "PatternConverter_formatAndAppend pf c event"
  let ?out = "drop (length s - nat (maxLen (info c))) s"
  note eq = formatAndAppend_eq [OF assms]
  have "\<exists>pre out. ?f = Inr out \<and> s = pre @ out \<and> int (length out) = maxLen (info c) \<and> out = ?out"
    if gt: "int (length s) > maxLen (info c)"
  proof (intro exI conjI)
    show "?f = Inr ?out" using eq gt by simp
    show "s = take (length s - nat (maxLen (info c))) s @ ?out" by simp
    show "int (length ?out) = maxLen (info c)" using assms(2) gt by simp
    show "?out = ?out" ..
  qed
  moreover have "?f = Inr (s @ replicate (nat (minLen (info c)) - length s) (CHR '' ''))"
    if "int (length s) \<le> maxLen (info c)" "int (length s) < minLen (info c)" "leftAlign (info c)"
    using eq that by simp
  moreover have "?f = Inr (replicate (nat (minLen (info c)) - length s) (CHR '' '') @ s)"
    if "int (length s) \<le> maxLen (info c)" "int (length s) < minLen (info c)" "\<not> leftAlign (info c)"
    using eq that by simp
  moreover have "?f = Inr s"
    if "int (length s) \<le> maxLen (info c)" "minLen (info c) \<le> int (length s)"
    using eq that by simp
  moreover have "?f = Inr s"
    if "int (length s) \<le> maxLen (info c)" "minLen (info c) = - 1"
    using eq that by simp
  ultimately show ?thesis by blast
qed

theorem formatAndAppend_width_law_witness:
  "PatternConverter_formatAndAppend sample_platform
      (BasicPatternConverter \<lparr>minLen = - 1, maxLen = 3, leftAlign = False\<rparr> 1000 MESSAGE_CONVERTER)
      (sample_event\<lparr>message := ''hello''\<rparr>) = Inr ''llo''
   \<and> PatternConverter_formatAndAppend sample_platform
      (BasicPatternConverter \<lparr>minLen = 5, maxLen = 0x7FFFFFFF, leftAlign = False\<rparr> 1000 MESSAGE_CONVERTER)
      (sample_event\<lparr>message := ''ab''\<rparr>) = Inr ''   ab''
   \<and> PatternConverter_formatAndAppend sample_platform
      (BasicPatternConverter \<lparr>minLen = 5, maxLen = 0x7FFFFFFF, leftAlign = True\<rparr> 1000 MESSAGE_CONVERTER)
      (sample_event\<lparr>message := ''ab''\<rparr>) = Inr ''ab   ''
   \<and> PatternConverter_formatAndAppend sample_platform
      (BasicPatternConverter \<lparr>minLen = - 1, maxLen = 0x7FFFFFFF, leftAlign = False\<rparr> 1000 MESSAGE_CONVERTER)
      (sample_event\<lparr>message := ''ab''\<rparr>) = Inr ''ab''"
  using
    formatAndAppend_width_law [of sample_platform
      "BasicPatternConverter \<lparr>minLen = - 1, maxLen = 3, leftAlign = False\<rparr> 1000 MESSAGE_CONVERTER"
      "sample_event\<lparr>message := ''hello''\<rparr>" "''hello''"]
    formatAndAppend_width_law [of sample_platform
      "BasicPatternConverter \<lparr>minLen = 5, maxLen = 0x7FFFFFFF, leftAlign = False\<rparr> 1000 MESSAGE_CONVERTER"
      "sample_event\<lparr>message := ''ab''\<rparr>" "''ab''"]
    formatAndAppend_width_law [of sample_platform
      "BasicPatternConverter \<lparr>minLen = 5, maxLen = 0x7FFFFFFF, leftAlign = True\<rparr> 1000 MESSAGE_CONVERTER"
      "sample_event\<lparr>message := ''ab''\<rparr>" "''ab''"]
    formatAndAppend_width_law [of sample_platform
      "BasicPatternConverter \<lparr>minLen = - 1, maxLen = 0x7FFFFFFF, leftAlign = False\<rparr> 1000 MESSAGE_CONVERTER"
      "sample_event\<lparr>message := ''ab''\<rparr>" "''ab''"]
  by (simp add: sample_event_def numeral_3_eq_3)

section \<open>Locations\<close>

lemma show_int_minus_one: "show_int (- 1) = ''-1''"
  by (simp add: show_int_def digits_of_nat.simps)

text \<open>
  C10. For an event with a file name and the absent line number \<open>-1\<close>, the
  full-location converter extracts the file name, a colon and the text \<open>-1\<close>, while the
  line converter extracts the empty string for the same event.
\<close>

theorem full_location_prints_absent_line:
  assumes "file' event = Some f" and "line event = - 1"
  shows "convert pf (BasicPatternConverter i cpm FULL_LOCATION_CONVERTER) event = Inr (f @ '':-1'')
       \<and> convert pf (BasicPatternConverter i cpm LINE_CONVERTER) event = Inr []"
  using assms by (simp add: show_int_minus_one)

theorem full_location_prints_absent_line_witness:
  "file' sample_event = Some ''a.cxx'' \<and> line sample_event = - 1
   \<and> convert sample_platform (BasicPatternConverter new_FormattingInfo 1000 FULL_LOCATION_CONVERTER)
        sample_event = Inr ''a.cxx:-1''
   \<and> convert sample_platform (BasicPatternConverter new_FormattingInfo 1000 LINE_CONVERTER)
        sample_event = Inr []"
  using full_location_prints_absent_line [of sample_event "''a.cxx''" sample_platform
      new_FormattingInfo 1000]
  by (simp add: sample_event_def)

section \<open>Relative time\<close>

lemma relative_time_fine_clock:
  assumes "MILLIS_PER_SEC \<le> CLOCKS_PER_SEC pf"
    and "new_BasicPatternConverter pf i RELATIVE_TIME_CONVERTER = (c, d)"
  shows "d = [] \<and> convert pf c event
           = Inr (show_int (clock_ticks event sdiv (CLOCKS_PER_SEC pf sdiv MILLIS_PER_SEC)))"
proof -
  have "CLOCKS_PER_SEC pf sdiv MILLIS_PER_SEC \<noteq> 0"
    using assms(1) by (simp add: MILLIS_PER_SEC_def signed_divide_int_def sgn_if)
  then show ?thesis
    using assms by (auto simp add: new_BasicPatternConverter_def)
qed

lemma relative_time_coarse_clock:
  assumes "0 \<le> CLOCKS_PER_SEC pf" and "CLOCKS_PER_SEC pf < MILLIS_PER_SEC"
    and "new_BasicPatternConverter pf i RELATIVE_TIME_CONVERTER = (c, d)"
  shows "d = [(ERROR, ''RELATIVE_TIME will not display correctly on this platform'')]
       \<and> convert pf c event = Inl DivisionByZero"
proof -
  have "CLOCKS_PER_SEC pf sdiv MILLIS_PER_SEC = 0"
    using assms(1,2) by (simp add: MILLIS_PER_SEC_def signed_divide_int_def sgn_if)
  then show ?thesis
    using assms by (auto simp add: new_BasicPatternConverter_def)
qed

text \<open>
  C5. On a platform with \<open>CLOCKS_PER_SEC = 100\<close>, coarser than a millisecond, the
  constructor of a relative-time converter reports the platform and stores
  \<open>CLOCKS_PER_MILLIS = 100 / 1000 = 0\<close>; its \<open>convert\<close> then divides the event's
  ticks by zero.
\<close>

theorem relative_time_divides_by_zero:
  "new_BasicPatternConverter coarse_platform new_FormattingInfo RELATIVE_TIME_CONVERTER
     = (BasicPatternConverter new_FormattingInfo 0 RELATIVE_TIME_CONVERTER,
        [(ERROR, ''RELATIVE_TIME will not display correctly on this platform'')])
   \<and> convert coarse_platform (BasicPatternConverter new_FormattingInfo 0 RELATIVE_TIME_CONVERTER)
        sample_event = Inl DivisionByZero
   \<and> PatternLayout_formatAndAppend coarse_platform (fst (init coarse_platform ''%r'')) sample_event
        = Inl DivisionByZero"
  by (simp add: new_BasicPatternConverter_def coarse_platform_def sample_platform_def
      MILLIS_PER_SEC_def signed_divide_int_def PatternLayout_formatAndAppend_def init_def validate_def
      parse_def new_PatternParser_def parse_loop.simps parse_step_def Let_def ESCAPE_CHAR_def
      is_digit_def finalizeConverter_def basic_def PatternConverter_formatAndAppend_def)

section \<open>Dates\<close>

lemma format_all_append:
  "format_all pf (xs @ ys) event =
     (case format_all pf xs event of
        Inl e \<Rightarrow> Inl e
      | Inr a \<Rightarrow> (case format_all pf ys event of Inl e \<Rightarrow> Inl e | Inr b \<Rightarrow> Inr (a @ b)))"
  by (induction xs) (auto split: option.splits sum.splits)

lemma date_convert_fails:
  assumes "(if use_gmtime then gmtime pf (timestamp event) else localtime pf (timestamp event))
             = Some t"
    and "formatting_fails pf format t"
  shows "DatePatternConverter_convert pf format use_gmtime event = Inr ''INVALID DATE PATTERN''"
  using assms
  by (auto simp add: formatting_fails_def DatePatternConverter_convert_def strftime_def
      BUFFER_SIZE_def split: option.splits if_splits)

lemma date_convert_null_time:
  assumes "(if use_gmtime then gmtime pf (timestamp event) else localtime pf (timestamp event))
             = None"
  shows "DatePatternConverter_convert pf format use_gmtime event = Inl NullTimeDereference"
  using assms by (simp add: DatePatternConverter_convert_def strftime_def)

text \<open>For an event whose timestamp the platform converts, a failure of the calendar
  formatting stays inside the date converter: its \<open>convert\<close> returns
  \<open>INVALID DATE PATTERN\<close>, it renders (some \<open>w\<close>), and the converters before and after
  it contribute the texts \<open>a\<close> and \<open>b\<close> they give on their own.\<close>

lemma date_failure_is_local:
  assumes "(if use_gmtime then gmtime pf (timestamp event) else localtime pf (timestamp event))
             = Some t"
    and "formatting_fails pf format t"
    and "0 \<le> maxLen i"
    and "format_all pf before event = Inr a"
    and "format_all pf after event = Inr b"
  shows "convert pf (DatePatternConverter i format use_gmtime) event = Inr ''INVALID DATE PATTERN''
       \<and> (\<exists>w. PatternConverter_formatAndAppend pf (DatePatternConverter i format use_gmtime) event = Inr w
              \<and> format_all pf (before @ [Some (DatePatternConverter i format use_gmtime)] @ after) event
                  = Inr (a @ w @ b))"
proof -
  let ?d = "DatePatternConverter i format use_gmtime"
  have c: "convert pf ?d event = Inr ''INVALID DATE PATTERN''"
    using assms(1,2) by (simp add: date_convert_fails)
  have "\<exists>w. PatternConverter_formatAndAppend pf ?d event = Inr w"
    using formatAndAppend_eq [OF c] assms(3) by simp
  then obtain w where w: "PatternConverter_formatAndAppend pf ?d event = Inr w" ..
  have "format_all pf (before @ [Some ?d] @ after) event = Inr (a @ w @ b)"
    using assms(4,5) w by (simp add: format_all_append)
  with c w show ?thesis by blast
qed

lemma date_failure_is_local_example:
  "format_all sample_platform
     [Some (LiteralPatternConverter ''[''),
      Some (DatePatternConverter new_FormattingInfo ''%A, %d %B %Y %H:%M:%S'' True),
      Some (LiteralPatternConverter ''] ''),
      Some (BasicPatternConverter new_FormattingInfo 1000 MESSAGE_CONVERTER)] sample_event
     = Inr ''[INVALID DATE PATTERN] started''"
  by (simp add: PatternConverter_formatAndAppend_def DatePatternConverter_convert_def strftime_def
      BUFFER_SIZE_def to_int_def new_FormattingInfo_def reset_def sample_platform_def
      sample_event_def)



section \<open>Construction from properties\<close>

text \<open>
  C8. The constructor that reads a \<open>Properties\<close> map throws when the map has no key
  \<open>Pattern\<close>, so that no layout is produced; with the key present it builds the layout by
  \<open>init\<close> on the key's value.
\<close>

theorem properties_without_pattern:
  "(''Pattern'' \<notin> dom properties \<longrightarrow>
      new_PatternLayout_properties pf properties
        = Inl (RuntimeError ''Pattern not specified in properties''))
   \<and> (\<forall>v. properties ''Pattern'' = Some v \<longrightarrow>
      new_PatternLayout_properties pf properties = Inr (init pf v)
      \<and> layout_pattern (fst (init pf v)) = v
      \<and> init pf v = new_PatternLayout pf v)"
  by (auto simp add: new_PatternLayout_properties_def getProperty_def new_PatternLayout_def
      init_def validate_def Let_def split_beta)

theorem properties_without_pattern_witness:
  "''Pattern'' \<notin> dom (Map.empty :: string \<rightharpoonup> string)
   \<and> new_PatternLayout_properties sample_platform Map.empty
        = Inl (RuntimeError ''Pattern not specified in properties'')
   \<and> [''Pattern'' \<mapsto> ''%m''] ''Pattern'' = Some ''%m''
   \<and> new_PatternLayout_properties sample_platform [''Pattern'' \<mapsto> ''%m'']
        = Inr (init sample_platform ''%m'')"
  using properties_without_pattern [of Map.empty sample_platform]
    properties_without_pattern [of "[''Pattern'' \<mapsto> ''%m'']" sample_platform]
  by simp

section \<open>The compiled sequence\<close>

lemma replace_nulls_map:
  "fst (replace_nulls xs)
     = map (\<lambda>it. case it of None \<Rightarrow> Some (LiteralPatternConverter []) | Some c \<Rightarrow> Some c) xs"
  by (induction xs) (auto split: option.splits prod.splits)

lemma replace_nulls_diag:
  "snd (replace_nulls xs)
     = replicate (length (filter (\<lambda>it. it = None) xs))
         (ERROR, ''Parsed Pattern created a NULL PatternConverter'')"
  by (induction xs) (auto split: option.splits prod.splits)

lemma replace_nulls_no_null: "None \<notin> set (fst (replace_nulls xs))"
  by (auto simp add: replace_nulls_map split: option.splits)

lemma replace_nulls_length: "length (fst (replace_nulls xs)) = length xs"
  by (simp add: replace_nulls_map)

lemma formatAndAppend_not_null:
  "PatternConverter_formatAndAppend pf c event \<noteq> Inl NullDereference"
proof -
  have b: "BasicPatternConverter_convert pf cpm ty event \<noteq> Inl NullDereference" for cpm ty
    by (cases ty) (auto split: option.splits)
  have l: "rfind_loop name n e \<noteq> Inl NullDereference" for name n e
    by (induction n arbitrary: e) (auto simp add: substr_def split: option.splits)
  have d: "DatePatternConverter_convert pf format g event \<noteq> Inl NullDereference" for format g
    by (auto simp add: DatePatternConverter_convert_def strftime_def Let_def
        split: option.splits sum.splits prod.splits if_splits)
  have "convert pf c event \<noteq> Inl NullDereference"
    by (cases c) (auto simp add: b l d LoggerPatternConverter_convert_def Let_def)
  then show ?thesis
    by (auto simp add: PatternConverter_formatAndAppend_def Let_def substr_def split: sum.splits)
qed

lemma format_all_not_null:
  "None \<notin> set xs \<Longrightarrow> format_all pf xs event \<noteq> Inl NullDereference"
proof (induction xs)
  case Nil
  show ?case by simp
next
  case (Cons it rest)
  then obtain c where c: "it = Some c" and r: "format_all pf rest event \<noteq> Inl NullDereference"
    by (cases it) auto
  show ?case
    using r formatAndAppend_not_null [of pf c event] by (auto simp add: c split: sum.splits)
qed

lemma validate_nonempty:
  "xs \<noteq> [] \<Longrightarrow>
     validate pf xs
       = (map (\<lambda>it. case it of None \<Rightarrow> Some (LiteralPatternConverter []) | Some c \<Rightarrow> Some c) xs,
          replicate (length (filter (\<lambda>it. it = None) xs))
            (ERROR, ''Parsed Pattern created a NULL PatternConverter''))"
  using replace_nulls_map [of xs] replace_nulls_diag [of xs]
  by (cases "replace_nulls xs") (simp add: validate_def)

lemma validate_empty:
  "validate pf []
     = ([Some (BasicPatternConverter new_FormattingInfo (CLOCKS_PER_SEC pf sdiv MILLIS_PER_SEC)
                 MESSAGE_CONVERTER)],
        [(WARN, ''PatternLayout pattern is empty.  Using default...'')])"
  by (simp add: validate_def new_BasicPatternConverter_def)

lemma validate_no_null: "fst (validate pf xs) \<noteq> [] \<and> None \<notin> set (fst (validate pf xs))"
proof (cases "xs = []")
  case True
  then show ?thesis by (simp add: validate_empty)
next
  case False
  then show ?thesis by (auto simp add: validate_nonempty split: option.splits)
qed

lemma init_validate:
  "init pf pat
     = (\<lparr>layout_pattern = pat,
         parsedPattern = fst (validate pf (list (parse pf (new_PatternParser pat))))\<rparr>,
        diag (parse pf (new_PatternParser pat))
        @ snd (validate pf (list (parse pf (new_PatternParser pat)))))"
  by (simp add: init_def Let_def split_beta)

text \<open>
  C7. Whatever list of slots the parser returns, null slots included, \<open>init\<close> turns it
  into a valid rendering sequence: every null slot is replaced by an empty Literal
  converter with one error in the log for each, the other slots are kept, and an empty
  list is replaced by the single default message converter with a warning in the log.
  The sequence is then non-empty and has no null slot, and a render pass over it
  never calls through a null pointer. For every pattern, the layout \<open>init\<close> builds holds
  the sequence so obtained from the parser's list, and the log the parser's diagnostics
  followed by those of the repair.
\<close>

theorem init_valid_sequence:
  "fst (validate pf xs) \<noteq> []
   \<and> None \<notin> set (fst (validate pf xs))
   \<and> (xs \<noteq> [] \<longrightarrow>
        fst (validate pf xs)
          = map (\<lambda>it. case it of None \<Rightarrow> Some (LiteralPatternConverter []) | Some c \<Rightarrow> Some c) xs
        \<and> snd (validate pf xs)
          = replicate (length (filter (\<lambda>it. it = None) xs))
              (ERROR, ''Parsed Pattern created a NULL PatternConverter''))
   \<and> (xs = [] \<longrightarrow>
        fst (validate pf xs)
          = [Some (BasicPatternConverter new_FormattingInfo (CLOCKS_PER_SEC pf sdiv MILLIS_PER_SEC)
                     MESSAGE_CONVERTER)]
        \<and> snd (validate pf xs) = [(WARN, ''PatternLayout pattern is empty.  Using default...'')])
   \<and> format_all pf (fst (validate pf xs)) event \<noteq> Inl NullDereference
   \<and> parsedPattern (fst (init pf pat)) = fst (validate pf (list (parse pf (new_PatternParser pat))))
   \<and> snd (init pf pat)
       = diag (parse pf (new_PatternParser pat))
         @ snd (validate pf (list (parse pf (new_PatternParser pat))))
   \<and> parsedPattern (fst (init pf pat)) \<noteq> []
   \<and> None \<notin> set (parsedPattern (fst (init pf pat)))
   \<and> PatternLayout_formatAndAppend pf (fst (init pf pat)) event \<noteq> Inl NullDereference"
proof -
  let ?l = "list (parse pf (new_PatternParser pat))"
  have v: "fst (validate pf ys) \<noteq> [] \<and> None \<notin> set (fst (validate pf ys))" for ys
    by (rule validate_no_null)
  have f: "format_all pf (fst (validate pf ys)) event \<noteq> Inl NullDereference" for ys
    using v [of ys] by (intro format_all_not_null) simp
  have n: "xs \<noteq> [] \<longrightarrow>
        fst (validate pf xs)
          = map (\<lambda>it. case it of None \<Rightarrow> Some (LiteralPatternConverter []) | Some c \<Rightarrow> Some c) xs
        \<and> snd (validate pf xs)
          = replicate (length (filter (\<lambda>it. it = None) xs))
              (ERROR, ''Parsed Pattern created a NULL PatternConverter'')"
    by (simp add: validate_nonempty)
  have e: "xs = [] \<longrightarrow>
        fst (validate pf xs)
          = [Some (BasicPatternConverter new_FormattingInfo (CLOCKS_PER_SEC pf sdiv MILLIS_PER_SEC)
                     MESSAGE_CONVERTER)]
        \<and> snd (validate pf xs) = [(WARN, ''PatternLayout pattern is empty.  Using default...'')]"
    by (simp add: validate_empty)
  have i: "parsedPattern (fst (init pf pat)) = fst (validate pf ?l)"
    and d: "snd (init pf pat) = diag (parse pf (new_PatternParser pat)) @ snd (validate pf ?l)"
    by (simp_all add: init_validate)
  have r: "PatternLayout_formatAndAppend pf (fst (init pf pat)) event \<noteq> Inl NullDereference"
    using f [of ?l] by (simp add: PatternLayout_formatAndAppend_def i)
  show ?thesis
    using v [of xs] v [of ?l] f [of xs] n e i d r by simp
qed

theorem init_valid_sequence_witness:
  "[Some (LiteralPatternConverter ''a''), None, None] \<noteq> []
   \<and> validate sample_platform [Some (LiteralPatternConverter ''a''), None, None]
       = ([Some (LiteralPatternConverter ''a''), Some (LiteralPatternConverter []),
           Some (LiteralPatternConverter [])],
          [(ERROR, ''Parsed Pattern created a NULL PatternConverter''),
           (ERROR, ''Parsed Pattern created a NULL PatternConverter'')])
   \<and> format_all sample_platform
        (fst (validate sample_platform [Some (LiteralPatternConverter ''a''), None, None]))
        sample_event = Inr ''a''
   \<and> validate sample_platform []
       = ([Some (BasicPatternConverter new_FormattingInfo 1000 MESSAGE_CONVERTER)],
          [(WARN, ''PatternLayout pattern is empty.  Using default...'')])
   \<and> list (parse sample_platform (new_PatternParser [])) = []
   \<and> parsedPattern (fst (init sample_platform []))
       = [Some (BasicPatternConverter new_FormattingInfo 1000 MESSAGE_CONVERTER)]
   \<and> snd (init sample_platform []) = [(WARN, ''PatternLayout pattern is empty.  Using default...'')]
   \<and> list (parse sample_platform (new_PatternParser ''%m'')) \<noteq> []
   \<and> parsedPattern (fst (init sample_platform ''%m''))
       = [Some (BasicPatternConverter new_FormattingInfo 1000 MESSAGE_CONVERTER)]
   \<and> snd (init sample_platform ''%m'') = []"
proof -
  let ?xs = "[Some (LiteralPatternConverter ''a''), None, None]"
  have e: "parse sample_platform (new_PatternParser [])
      = \<lparr>pattern = [], formattingInfo = new_FormattingInfo, list = [],
         state = LITERAL_STATE, pos = 0, currentLiteral = [], diag = []\<rparr>"
    by (simp add: parse_def new_PatternParser_def parse_loop.simps)
  have m: "parse sample_platform (new_PatternParser ''%m'')
      = \<lparr>pattern = ''%m'', formattingInfo = new_FormattingInfo,
         list = [Some (BasicPatternConverter new_FormattingInfo 1000 MESSAGE_CONVERTER)],
         state = LITERAL_STATE, pos = 2, currentLiteral = [], diag = []\<rparr>"
    by (simp add: parse_def new_PatternParser_def parse_loop.simps parse_step_def Let_def
        ESCAPE_CHAR_def is_digit_def finalizeConverter_def basic_def new_BasicPatternConverter_def
        reset_def new_FormattingInfo_def sample_platform_def MILLIS_PER_SEC_def
        signed_divide_int_def)
  have cps: "CLOCKS_PER_SEC sample_platform sdiv MILLIS_PER_SEC = 1000"
    by (simp add: sample_platform_def MILLIS_PER_SEC_def signed_divide_int_def)
  note t1 = init_valid_sequence [of sample_platform ?xs sample_event "[]"]
  note t2 = init_valid_sequence [of sample_platform "[]" sample_event "''%m''"]
  have v1: "validate sample_platform ?xs
      = ([Some (LiteralPatternConverter ''a''), Some (LiteralPatternConverter []),
          Some (LiteralPatternConverter [])],
         [(ERROR, ''Parsed Pattern created a NULL PatternConverter''),
          (ERROR, ''Parsed Pattern created a NULL PatternConverter'')])"
    using t1 by (simp add: prod_eq_iff numeral_2_eq_2)
  have v2: "validate sample_platform []
      = ([Some (BasicPatternConverter new_FormattingInfo 1000 MESSAGE_CONVERTER)],
         [(WARN, ''PatternLayout pattern is empty.  Using default...'')])"
    using t2 by (simp add: prod_eq_iff cps)
  have v3: "validate sample_platform [Some (BasicPatternConverter new_FormattingInfo 1000 MESSAGE_CONVERTER)]
      = ([Some (BasicPatternConverter new_FormattingInfo 1000 MESSAGE_CONVERTER)], [])"
    using init_valid_sequence [of sample_platform
        "[Some (BasicPatternConverter new_FormattingInfo 1000 MESSAGE_CONVERTER)]" sample_event "[]"]
    by (simp add: prod_eq_iff)
  have r: "format_all sample_platform
        [Some (LiteralPatternConverter ''a''), Some (LiteralPatternConverter []),
         Some (LiteralPatternConverter [])] sample_event = Inr ''a''"
    by (simp add: PatternConverter_formatAndAppend_def to_int_def new_FormattingInfo_def reset_def)
  show ?thesis
    using t1 t2 by (simp add: e m v1 v2 v3 r del: format_all.simps)
qed


section \<open>Malformed specifiers\<close>

lemma parse_dot_x:
  "parse pf (new_PatternParser ''%.x'')
     = \<lparr>pattern = ''%.x'', formattingInfo = new_FormattingInfo,
        list = [Some (LiteralPatternConverter ''%.x'')],
        state = LITERAL_STATE, pos = 3, currentLiteral = ''%.x'',
        diag = [(ERROR, ''Error occured in position 3.'' @ [CHR 0x0A]
                        @ '' Was expecting digit, instead got char ''
                        @ [CHR 0x22, CHR ''x'', CHR 0x22, CHR ''.''])]\<rparr>"
  by (simp add: parse_def new_PatternParser_def parse_loop.simps parse_step_def Let_def
      ESCAPE_CHAR_def is_digit_def reset_def new_FormattingInfo_def show_int_def
      digits_of_nat.simps)

lemma literal_renders_itself:
  "length str < 2147483648 \<Longrightarrow>
     PatternConverter_formatAndAppend pf (LiteralPatternConverter str) event = Inr str"
  by (simp add: PatternConverter_formatAndAppend_def to_int_length new_FormattingInfo_def reset_def)

text \<open>
  C3. Compiling \<open>%.x\<close> sends one error to the log, leaves the parser in the Literal
  state and builds no converter for a specifier; the text \<open>%.x\<close> stays in the pending
  literal, which the end of the input flushes as one Literal converter, so that the
  layout renders \<open>%.x\<close> for every event. Nothing is thrown.
\<close>

theorem dot_without_digit:
  "list (parse pf (new_PatternParser ''%.x'')) = [Some (LiteralPatternConverter ''%.x'')]
   \<and> diag (parse pf (new_PatternParser ''%.x''))
       = [(ERROR, ''Error occured in position 3.'' @ [CHR 0x0A]
                  @ '' Was expecting digit, instead got char ''
                  @ [CHR 0x22, CHR ''x'', CHR 0x22, CHR ''.''])]
   \<and> state (parse pf (new_PatternParser ''%.x'')) = LITERAL_STATE
   \<and> parsedPattern (fst (init pf ''%.x'')) = [Some (LiteralPatternConverter ''%.x'')]
   \<and> PatternLayout_formatAndAppend pf (fst (init pf ''%.x'')) event = Inr ''%.x''"
  by (simp add: parse_dot_x init_def validate_def PatternLayout_formatAndAppend_def literal_renders_itself)

theorem dot_without_digit_counterexample:
  "list (parse sample_platform (new_PatternParser ''%.x'')) \<noteq> []
   \<and> PatternLayout_formatAndAppend sample_platform (fst (init sample_platform ''%.x'')) sample_event
       = Inr ''%.x''"
  by (simp add: parse_dot_x init_def validate_def PatternLayout_formatAndAppend_def literal_renders_itself)

section \<open>Patterns without a specifier\<close>

lemma literal_step:
  assumes "state p = LITERAL_STATE" and "pos p < length (pattern p)"
    and "pattern p ! pos p \<noteq> ESCAPE_CHAR"
  shows "parse_step pf p
           = p\<lparr>pos := Suc (pos p), currentLiteral := currentLiteral p @ [pattern p ! pos p]\<rparr>"
  using assms by (simp add: parse_step_def Let_def)

lemma literal_loop:
  "state p = LITERAL_STATE \<Longrightarrow> ESCAPE_CHAR \<notin> set (drop (pos p) (pattern p)) \<Longrightarrow>
     parse_loop pf p
       = p\<lparr>pos := max (pos p) (length (pattern p)),
            currentLiteral := currentLiteral p @ drop (pos p) (pattern p)\<rparr>"
proof (induction pf p rule: parse_loop.induct)
  case (1 pf p)
  show ?case
  proof (cases "pos p < length (pattern p)")
    case True
    have d: "drop (pos p) (pattern p) = pattern p ! pos p # drop (Suc (pos p)) (pattern p)"
      using True by (simp add: Cons_nth_drop_Suc)
    then have ne: "pattern p ! pos p \<noteq> ESCAPE_CHAR"
      and rest: "ESCAPE_CHAR \<notin> set (drop (Suc (pos p)) (pattern p))"
      using "1.prems"(2) by auto
    note st = literal_step [OF "1.prems"(1) True ne, of pf]
    have "parse_loop pf p = parse_loop pf (parse_step pf p)"
      using True by (simp add: parse_loop.simps [of pf p])
    also have "\<dots> = (parse_step pf p)\<lparr>pos := max (pos (parse_step pf p)) (length (pattern (parse_step pf p))),
            currentLiteral := currentLiteral (parse_step pf p)
               @ drop (pos (parse_step pf p)) (pattern (parse_step pf p))\<rparr>"
      using "1.IH" [OF True] "1.prems"(1) rest by (simp add: st)
    also have "\<dots> = p\<lparr>pos := max (pos p) (length (pattern p)),
            currentLiteral := currentLiteral p @ drop (pos p) (pattern p)\<rparr>"
      using True by (simp add: st d max_def)
    finally show ?thesis .
  next
    case False
    then show ?thesis
      by (simp add: parse_loop.simps [of pf p] max_def)
  qed
qed

text \<open>
  C9. A non-empty pattern without \<open>%\<close> (of a length that fits the code's \<open>int\<close>)
  compiles to one Literal converter holding the pattern, and the layout renders the
  pattern itself for every event.
\<close>

theorem literal_pattern_renders_itself:
  assumes "pat \<noteq> []" and "CHR ''%'' \<notin> set pat" and "length pat < 2147483648"
  shows "parsedPattern (fst (init pf pat)) = [Some (LiteralPatternConverter pat)]
       \<and> PatternLayout_formatAndAppend pf (fst (init pf pat)) event = Inr pat"
proof -
  have "parse_loop pf ((new_PatternParser pat)\<lparr>pos := 0\<rparr>)
      = (new_PatternParser pat)\<lparr>pos := length pat, currentLiteral := pat\<rparr>"
    using literal_loop [of "(new_PatternParser pat)\<lparr>pos := 0\<rparr>" pf] assms(2)
    by (simp add: new_PatternParser_def ESCAPE_CHAR_def)
  then have "list (parse pf (new_PatternParser pat)) = [Some (LiteralPatternConverter pat)]"
    using assms(1) by (simp add: parse_def new_PatternParser_def)
  then have p: "parsedPattern (fst (init pf pat)) = [Some (LiteralPatternConverter pat)]"
    by (simp add: init_def validate_def Let_def)
  then show ?thesis
    using assms(3) by (simp add: PatternLayout_formatAndAppend_def literal_renders_itself)
qed

theorem literal_pattern_renders_itself_witness:
  "''a b'' \<noteq> [] \<and> CHR ''%'' \<notin> set ''a b'' \<and> length ''a b'' < 2147483648
   \<and> PatternLayout_formatAndAppend sample_platform (fst (init sample_platform ''a b'')) sample_event
       = Inr ''a b''"
  using literal_pattern_renders_itself [of "''a b''" sample_platform sample_event]
  by simp

theorem empty_pattern_counterexample:
  "CHR ''%'' \<notin> set ([] :: string)
   \<and> PatternLayout_formatAndAppend sample_platform (fst (init sample_platform [])) sample_event
       = Inr ''started''
   \<and> ''started'' \<noteq> ([] :: string)"
  by (simp add: PatternLayout_formatAndAppend_def init_def validate_def parse_def new_PatternParser_def
      parse_loop.simps new_BasicPatternConverter_def PatternConverter_formatAndAppend_def
      to_int_def new_FormattingInfo_def reset_def sample_event_def)

section \<open>Logger names\<close>

lemma rfind_upto_None: "rfind_upto s c n = None \<longleftrightarrow> (\<forall>k\<le>n. s ! k \<noteq> c)"
  by (induction n) (auto simp add: le_Suc_eq)

lemma rfind_upto_Some:
  "rfind_upto s c n = Some j \<Longrightarrow> j \<le> n \<and> s ! j = c \<and> (\<forall>k. j < k \<and> k \<le> n \<longrightarrow> s ! k \<noteq> c)"
  by (induction n) (auto simp add: le_Suc_eq split: if_splits)

lemma filter_upt_last:
  assumes "j < e" and "P j" and "\<forall>k. j < k \<and> k < e \<longrightarrow> \<not> P k"
  shows "filter P [0..<e] = filter P [0..<j] @ [j]"
proof -
  have "[0..<e] = [0..<j] @ j # [Suc j..<e]"
    using assms(1) by (metis le_add1 less_imp_le_nat plus_nat.add_0 upt_add_eq_append upt_conv_Cons le_add_diff_inverse)
  moreover have "filter P [Suc j..<e] = []"
    using assms(3) by (auto simp add: filter_empty_conv)
  ultimately show ?thesis
    using assms(2) by simp
qed

lemma dots_below_none:
  "\<forall>k<e. name ! k \<noteq> CHR ''.'' \<Longrightarrow> dots_below name e = []"
  by (simp add: dots_below_def filter_empty_conv)

lemma dots_below_0: "dots_below name 0 = []"
  by (simp add: dots_below_def)

lemma dots_below_found:
  assumes "rfind_upto name (CHR ''.'') n = Some j"
  shows "dots_below name (Suc n) = j # dots_below name j" and "j \<le> n"
proof -
  from rfind_upto_Some [OF assms]
  have j: "j \<le> n" and d: "name ! j = CHR ''.''"
    and a: "\<forall>k. j < k \<and> k \<le> n \<longrightarrow> name ! k \<noteq> CHR ''.''"
    by auto
  show "j \<le> n" by (rule j)
  have "filter (\<lambda>k. name ! k = CHR ''.'') [0..<Suc n]
      = filter (\<lambda>k. name ! k = CHR ''.'') [0..<j] @ [j]"
    by (rule filter_upt_last) (use j d a in auto)
  then show "dots_below name (Suc n) = j # dots_below name j"
    by (simp add: dots_below_def)
qed

lemma size_t_of_nat: "n < 2147483648 \<Longrightarrow> size_t_of_int (int n) = n"
  by (simp add: size_t_of_int_def)

lemma rfind_loop_walk:
  assumes "1 \<le> e" and "e \<le> length name" and "length name < 2147483648"
    and "name ! 0 = CHR ''.'' \<longrightarrow> Suc i \<le> length (dots_below name e)"
  shows "rfind_loop name (Suc i) (int e)
       = Inr (if length (dots_below name e) < Suc i then name
              else drop (Suc (dots_below name e ! i)) name)"
  using assms
proof (induction i arbitrary: e)
  case 0
  obtain n where n: "e = Suc n" using "0.prems"(1) by (cases e) auto
  have r: "rfind name (CHR ''.'') (size_t_of_int (int e - 1)) = rfind_upto name (CHR ''.'') n"
    using "0.prems" n size_t_of_nat [of n] by (auto simp add: rfind_def min_def)
  show ?case
  proof (cases "rfind_upto name (CHR ''.'') n")
    case None
    then have "dots_below name e = []"
      using n by (intro dots_below_none) (simp add: rfind_upto_None less_Suc_eq_le)
    then show ?thesis using None r by simp
  next
    case (Some j)
    note f = dots_below_found [OF Some]
    have "to_int (int j) = int j"
      using f(2) n "0.prems" by (intro to_int_id) auto
    moreover have "nat (int j + 1) = Suc j" by simp
    ultimately show ?thesis
      using Some r f n "0.prems" by (simp add: substr_def)
  qed
next
  case (Suc i)
  obtain n where n: "e = Suc n" using Suc.prems(1) by (cases e) auto
  have r: "rfind name (CHR ''.'') (size_t_of_int (int e - 1)) = rfind_upto name (CHR ''.'') n"
    using Suc.prems n size_t_of_nat [of n] by (auto simp add: rfind_def min_def)
  show ?case
  proof (cases "rfind_upto name (CHR ''.'') n")
    case None
    then have "dots_below name e = []"
      using n by (intro dots_below_none) (simp add: rfind_upto_None less_Suc_eq_le)
    then show ?thesis using None r by simp
  next
    case (Some j)
    note f = dots_below_found [OF Some]
    have t: "to_int (int j) = int j"
      using f(2) n Suc.prems by (intro to_int_id) auto
    have dot: "name ! j = CHR ''.''"
      using rfind_upto_Some [OF Some] by simp
    have j1: "1 \<le> j"
    proof (rule ccontr)
      assume "\<not> 1 \<le> j"
      then have "j = 0" by simp
      then have "Suc (Suc i) \<le> length (dots_below name e)"
        using dot Suc.prems(4) by simp
      moreover have "dots_below name e = [0]"
        using f(1) n \<open>j = 0\<close> by (simp add: dots_below_0)
      ultimately show False by simp
    qed
    have "rfind_loop name (Suc i) (int j)
        = Inr (if length (dots_below name j) < Suc i then name
               else drop (Suc (dots_below name j ! i)) name)"
    proof (rule Suc.IH)
      show "1 \<le> j" by (rule j1)
      show "j \<le> length name" using f(2) n Suc.prems(2) by simp
      show "length name < 2147483648" by (rule Suc.prems(3))
      show "name ! 0 = CHR ''.'' \<longrightarrow> Suc i \<le> length (dots_below name j)"
        using Suc.prems(4) f(1) n by simp
    qed
    then show ?thesis
      using Some r t f(1) n by simp
  qed
qed


lemma convert_logger_walk:
  assumes "0 < p" and "length name < 2147483648"
    and "name \<noteq> [] \<longrightarrow> hd name = CHR ''.'' \<longrightarrow> nat p \<le> length (dots_below name (length name - 1))"
    and "loggerName event = name"
  shows "LoggerPatternConverter_convert p event = Inr (suffix_after_dot (length name - 1) p name)"
proof -
  obtain i where i: "nat p = Suc i" using assms(1) by (cases "nat p") auto
  have len: "to_int (int (length name)) = int (length name)"
    using assms(2) by (rule to_int_length)
  have c: "LoggerPatternConverter_convert p event = rfind_loop name (Suc i) (int (length name) - 1)"
    using assms(1,4) i len by (simp add: LoggerPatternConverter_convert_def Let_def)
  have s: "suffix_after_dot (length name - 1) p name
      = (if length (dots_below name (length name - 1)) < Suc i then name
         else drop (Suc (dots_below name (length name - 1) ! i)) name)"
    using assms(1) i by (simp add: suffix_after_dot_def)
  consider "name = []" | "length name = 1" | "2 \<le> length name"
    by (cases name) (auto simp add: Suc_le_eq)
  then show ?thesis
  proof cases
    case 1
    show ?thesis
      unfolding c s using 1 by (simp add: rfind_def dots_below_0)
  next
    case 2
    then have ne: "name \<noteq> []" by auto
    have "hd name \<noteq> CHR ''.''"
      using assms(3) ne 2 i by (auto simp add: dots_below_def)
    then have "name ! 0 \<noteq> CHR ''.''"
      using ne by (simp add: hd_conv_nth)
    then show ?thesis
      unfolding c s using 2 ne by (simp add: rfind_def dots_below_0 size_t_of_int_def)
  next
    case 3
    then have ne: "name \<noteq> []" by auto
    have e: "int (length name) - 1 = int (length name - 1)"
      using 3 by simp
    have "rfind_loop name (Suc i) (int (length name - 1))
        = Inr (if length (dots_below name (length name - 1)) < Suc i then name
               else drop (Suc (dots_below name (length name - 1) ! i)) name)"
    proof (rule rfind_loop_walk)
      show "1 \<le> length name - 1" using 3 by simp
      show "length name - 1 \<le> length name" by simp
      show "length name < 2147483648" by (rule assms(2))
      show "name ! 0 = CHR ''.'' \<longrightarrow> Suc i \<le> length (dots_below name (length name - 1))"
        using assms(3) ne i by (simp add: hd_conv_nth)
    qed
    then show ?thesis
      unfolding c s e .
  qed
qed

text \<open>
  C2. For a precision \<open>p \<le> 0\<close> the logger-name converter returns the whole name.
  For \<open>p > 0\<close> it walks the name from right to left starting at the last character but
  one, so that a dot in the last position is never counted, and returns the suffix that
  starts one character after the \<open>p\<close>-th dot it finds, or the whole name when there are
  fewer than \<open>p\<close> dots before the last character. The walk is taken up to the point
  where it has met a dot at index \<open>0\<close> and still looks for another: a name that begins
  with a dot and has fewer than \<open>p\<close> dots before its last character is left out.
\<close>

theorem logger_name_precision:
  assumes "length (loggerName event) < 2147483648"
    and "0 < p \<longrightarrow> loggerName event \<noteq> [] \<longrightarrow> hd (loggerName event) = CHR ''.'' \<longrightarrow>
           nat p \<le> length (dots_below (loggerName event) (length (loggerName event) - 1))"
  shows "convert pf (LoggerPatternConverter i p) event
           = Inr (suffix_after_dot (length (loggerName event) - 1) p (loggerName event))"
proof (cases "0 < p")
  case True
  then show ?thesis
    using convert_logger_walk [of p "loggerName event" event] assms by simp
next
  case False
  then show ?thesis
    by (simp add: LoggerPatternConverter_convert_def suffix_after_dot_def)
qed

theorem logger_name_precision_witness:
  "convert sample_platform (LoggerPatternConverter new_FormattingInfo 2)
       (sample_event\<lparr>loggerName := ''a.b.c.d''\<rparr>) = Inr ''c.d''
   \<and> convert sample_platform (LoggerPatternConverter new_FormattingInfo 0)
       (sample_event\<lparr>loggerName := ''a.b.c.d''\<rparr>) = Inr ''a.b.c.d''
   \<and> convert sample_platform (LoggerPatternConverter new_FormattingInfo 4)
       (sample_event\<lparr>loggerName := ''a.b.c.d''\<rparr>) = Inr ''a.b.c.d''
   \<and> convert sample_platform (LoggerPatternConverter new_FormattingInfo 1)
       (sample_event\<lparr>loggerName := ''a.b.''\<rparr>) = Inr ''b.''
   \<and> convert sample_platform (LoggerPatternConverter new_FormattingInfo 2)
       (sample_event\<lparr>loggerName := ''.a.b''\<rparr>) = Inr ''a.b''"
  using logger_name_precision [of "sample_event\<lparr>loggerName := ''a.b.c.d''\<rparr>" 2 sample_platform new_FormattingInfo]
    logger_name_precision [of "sample_event\<lparr>loggerName := ''a.b.c.d''\<rparr>" 0 sample_platform new_FormattingInfo]
    logger_name_precision [of "sample_event\<lparr>loggerName := ''a.b.c.d''\<rparr>" 4 sample_platform new_FormattingInfo]
    logger_name_precision [of "sample_event\<lparr>loggerName := ''a.b.''\<rparr>" 1 sample_platform new_FormattingInfo]
    logger_name_precision [of "sample_event\<lparr>loggerName := ''.a.b''\<rparr>" 2 sample_platform new_FormattingInfo]
  by (simp add: suffix_after_dot_def dots_below_def upt_rec [of 0] upt_rec [of "Suc 0"]
      upt_rec [of 2] upt_rec [of 3] upt_rec [of 4] upt_rec [of 5] upt_rec [of 6])

theorem logger_name_precision_counterexample:
  "convert sample_platform (LoggerPatternConverter new_FormattingInfo 1)
       (sample_event\<lparr>loggerName := ''a.b.''\<rparr>) = Inr ''b.''
   \<and> suffix_after_dot (length ''a.b.'') 1 ''a.b.'' = []
   \<and> convert sample_platform (LoggerPatternConverter new_FormattingInfo 1)
       (sample_event\<lparr>loggerName := ''a.''\<rparr>) = Inr ''a.''
   \<and> suffix_after_dot (length ''a.'') 1 ''a.'' = []"
  by (simp add: LoggerPatternConverter_convert_def to_int_def size_t_of_int_def rfind_def
      substr_def suffix_after_dot_def dots_below_def numeral_2_eq_2 numeral_3_eq_3
      upt_rec [of 0] upt_rec [of "Suc 0"] upt_rec [of 2] upt_rec [of 3] upt_rec [of 4])

lemma leading_dot_walk_restarts:
  "convert sample_platform (LoggerPatternConverter new_FormattingInfo 2)
       (sample_event\<lparr>loggerName := ''.a''\<rparr>) = Inr ''a''
   \<and> suffix_after_dot (length ''.a'') 2 ''.a'' = ''.a''
   \<and> suffix_after_dot (length ''.a'' - 1) 2 ''.a'' = ''.a''"
  by (simp add: LoggerPatternConverter_convert_def to_int_def size_t_of_int_def rfind_def
      substr_def suffix_after_dot_def dots_below_def numeral_2_eq_2 numeral_3_eq_3
      upt_rec [of 0] upt_rec [of "Suc 0"] upt_rec [of 2] upt_rec [of 3] upt_rec [of 4])

section \<open>Escapes\<close>

lemma extractOption_list:
  "extractOption (p\<lparr>list := l @ list p\<rparr>)
     = (fst (extractOption p), (snd (extractOption p))\<lparr>list := l @ list (snd (extractOption p))\<rparr>)"
  by (simp add: extractOption_def split: option.splits)

lemma extractPrecisionOption_list:
  "extractPrecisionOption (p\<lparr>list := l @ list p\<rparr>)
     = (fst (extractPrecisionOption p),
        (snd (extractPrecisionOption p))\<lparr>list := l @ list (snd (extractPrecisionOption p))\<rparr>)"
  by (simp add: extractPrecisionOption_def extractOption_list split_beta)

lemma basic_list:
  "basic pf ty (p\<lparr>list := l @ list p\<rparr>)
     = (fst (basic pf ty p), (snd (basic pf ty p))\<lparr>list := l @ list (snd (basic pf ty p))\<rparr>)"
  by (simp add: basic_def split_beta)

lemma finalizeConverter_list:
  "finalizeConverter pf c (p\<lparr>list := l @ list p\<rparr>)
     = (finalizeConverter pf c p)\<lparr>list := l @ list (finalizeConverter pf c p)\<rparr>"
  by (simp add: finalizeConverter_def extractPrecisionOption_list extractOption_list basic_list
      split_beta Let_def)

lemma parse_step_list:
  "parse_step pf (p\<lparr>list := l @ list p\<rparr>)
     = (parse_step pf p)\<lparr>list := l @ list (parse_step pf p)\<rparr>"
proof -
  have f: "finalizeConverter pf c (p\<lparr>list := l @ list p, pos := n, currentLiteral := cl\<rparr>)
      = (finalizeConverter pf c (p\<lparr>pos := n, currentLiteral := cl\<rparr>))
          \<lparr>list := l @ list (finalizeConverter pf c (p\<lparr>pos := n, currentLiteral := cl\<rparr>))\<rparr>"
    for c n cl
  proof -
    have "p\<lparr>list := l @ list p, pos := n, currentLiteral := cl\<rparr>
        = (p\<lparr>pos := n, currentLiteral := cl\<rparr>)\<lparr>list := l @ list (p\<lparr>pos := n, currentLiteral := cl\<rparr>)\<rparr>"
      by (rule PatternParser.equality) simp_all
    then show ?thesis
      by (simp only: finalizeConverter_list)
  qed
  show ?thesis
    by (cases "state p") (simp_all add: parse_step_def Let_def f)
qed

lemma parse_loop_list:
  "parse_loop pf (p\<lparr>list := l @ list p\<rparr>)
     = (parse_loop pf p)\<lparr>list := l @ list (parse_loop pf p)\<rparr>"
proof (induction pf p rule: parse_loop.induct)
  case (1 pf p)
  show ?case
  proof (cases "pos p < length (pattern p)")
    case True
    have "parse_loop pf (p\<lparr>list := l @ list p\<rparr>)
        = parse_loop pf (parse_step pf (p\<lparr>list := l @ list p\<rparr>))"
      using True by (simp add: parse_loop.simps [of pf "p\<lparr>list := l @ list p\<rparr>"])
    also have "\<dots> = (parse_loop pf (parse_step pf p))
                      \<lparr>list := l @ list (parse_loop pf (parse_step pf p))\<rparr>"
      using "1.IH" [OF True] by (simp add: parse_step_list)
    also have "parse_loop pf (parse_step pf p) = parse_loop pf p"
      using True by (simp add: parse_loop.simps [of pf p])
    finally show ?thesis .
  next
    case False
    then show ?thesis
      by (simp add: parse_loop.simps [of pf p] parse_loop.simps [of pf "p\<lparr>list := l @ list p\<rparr>"])
  qed
qed

lemma compile_from_list:
  "compile_from pf (p\<lparr>list := l @ list p\<rparr>) = l @ compile_from pf p"
  by (simp add: compile_from_def parse_loop_list Let_def)

lemma compile_from_list_Nil:
  "compile_from pf p = list p @ compile_from pf (p\<lparr>list := []\<rparr>)"
  using compile_from_list [of pf "list p" "p\<lparr>list := []\<rparr>"] by simp


lemma compile_from_step:
  "pos p < length (pattern p) \<Longrightarrow> compile_from pf p = compile_from pf (parse_step pf p)"
  by (simp add: compile_from_def parse_loop.simps [of pf p])

lemma compile_from_end:
  "\<not> pos p < length (pattern p) \<Longrightarrow>
     compile_from pf p
       = (if currentLiteral p \<noteq> [] then list p @ [Some (LiteralPatternConverter (currentLiteral p))]
          else list p)"
  by (simp add: compile_from_def parse_loop.simps [of pf p])

lemma prepend_Nil: "prepend [] r = r"
  by (simp add: prepend_def split: sum.splits)

lemma prepend_prepend: "prepend a (prepend b r) = prepend (a @ b) r"
  by (simp add: prepend_def split: sum.splits)

lemma format_all_literal:
  "length str < 2147483648 \<Longrightarrow>
     format_all pf (Some (LiteralPatternConverter str) # rest) event
       = prepend str (format_all pf rest event)"
  by (simp add: literal_renders_itself prepend_def)

lemma literal_keep:
  assumes "state p = LITERAL_STATE" and "pos p < length (pattern p)"
    and "Suc (pos p) = length (pattern p) \<or> pattern p ! pos p \<noteq> ESCAPE_CHAR"
  shows "parse_step pf p
           = p\<lparr>pos := Suc (pos p), currentLiteral := currentLiteral p @ [pattern p ! pos p]\<rparr>"
  using assms by (auto simp add: parse_step_def Let_def)

lemma literal_escape:
  assumes "state p = LITERAL_STATE" and "Suc (pos p) < length (pattern p)"
    and "pattern p ! pos p = ESCAPE_CHAR"
    and "pattern p ! Suc (pos p) = ESCAPE_CHAR \<or> pattern p ! Suc (pos p) = CHR ''n''"
  shows "parse_step pf p
           = p\<lparr>pos := Suc (Suc (pos p)),
                currentLiteral := currentLiteral p
                  @ [if pattern p ! Suc (pos p) = ESCAPE_CHAR then ESCAPE_CHAR else CHR 0x0A]\<rparr>"
  using assms by (auto simp add: parse_step_def Let_def ESCAPE_CHAR_def)

lemma literal_start_specifier:
  assumes "state p = LITERAL_STATE" and "Suc (pos p) < length (pattern p)"
    and "pattern p ! pos p = ESCAPE_CHAR"
    and "pattern p ! Suc (pos p) \<noteq> ESCAPE_CHAR" and "pattern p ! Suc (pos p) \<noteq> CHR ''n''"
  shows "parse_step pf p
           = p\<lparr>pos := Suc (pos p), currentLiteral := [ESCAPE_CHAR], state := CONVERTER_STATE,
                formattingInfo := reset (formattingInfo p),
                list := (if currentLiteral p \<noteq> []
                         then list p @ [Some (LiteralPatternConverter (currentLiteral p))]
                         else list p)\<rparr>"
  using assms by (auto simp add: parse_step_def Let_def intro: PatternParser.equality)


lemma pending_literal_first:
  assumes "state p = LITERAL_STATE" and "list p = []"
    and "length (currentLiteral p) + (length (pattern p) - pos p) < 2147483648"
  shows "format_all pf (compile_from pf p) event
           = prepend (currentLiteral p)
               (format_all pf (compile_from pf (p\<lparr>currentLiteral := []\<rparr>)) event)"
  using assms
proof (induction "length (pattern p) - pos p" arbitrary: p rule: less_induct)
  case less
  let ?L = "currentLiteral p"
  let ?p0 = "p\<lparr>currentLiteral := []\<rparr>"
  have L: "length ?L < 2147483648" using less.prems(3) by simp
  show ?case
  proof (cases "pos p < length (pattern p)")
    case False
    then show ?thesis
      using less.prems(2) L
      by (simp add: compile_from_end literal_renders_itself prepend_def)
  next
    case True
    have keep: "format_all pf (compile_from pf p) event
          = prepend ?L (format_all pf (compile_from pf ?p0) event)"
      if s1: "parse_step pf p = p\<lparr>pos := pos p + k, currentLiteral := ?L @ [x]\<rparr>"
        and s0: "parse_step pf ?p0 = ?p0\<lparr>pos := pos p + k, currentLiteral := [x]\<rparr>"
        and k: "1 \<le> k" "pos p + k \<le> length (pattern p)" for k x
    proof -
      let ?q = "p\<lparr>pos := pos p + k, currentLiteral := []\<rparr>"
      have "format_all pf (compile_from pf (p\<lparr>pos := pos p + k, currentLiteral := ?L @ [x]\<rparr>)) event
          = prepend (?L @ [x]) (format_all pf (compile_from pf ?q) event)"
        using less.hyps [of "p\<lparr>pos := pos p + k, currentLiteral := ?L @ [x]\<rparr>"]
          less.prems k True by simp
      moreover have "format_all pf (compile_from pf (p\<lparr>pos := pos p + k, currentLiteral := [x]\<rparr>)) event
          = prepend [x] (format_all pf (compile_from pf ?q) event)"
        using less.hyps [of "p\<lparr>pos := pos p + k, currentLiteral := [x]\<rparr>"]
          less.prems k True by simp
      moreover have "compile_from pf p = compile_from pf (p\<lparr>pos := pos p + k, currentLiteral := ?L @ [x]\<rparr>)"
        using compile_from_step [of p pf] True s1 by simp
      moreover have "compile_from pf ?p0 = compile_from pf (p\<lparr>pos := pos p + k, currentLiteral := [x]\<rparr>)"
        using compile_from_step [of ?p0 pf] True s0 by simp
      ultimately show ?thesis
        by (simp add: prepend_prepend)
    qed
    consider (plain) "Suc (pos p) = length (pattern p) \<or> pattern p ! pos p \<noteq> ESCAPE_CHAR"
      | (escape) "Suc (pos p) < length (pattern p)" "pattern p ! pos p = ESCAPE_CHAR"
          "pattern p ! Suc (pos p) = ESCAPE_CHAR \<or> pattern p ! Suc (pos p) = CHR ''n''"
      | (specifier) "Suc (pos p) < length (pattern p)" "pattern p ! pos p = ESCAPE_CHAR"
          "pattern p ! Suc (pos p) \<noteq> ESCAPE_CHAR" "pattern p ! Suc (pos p) \<noteq> CHR ''n''"
      using True by (cases "Suc (pos p) = length (pattern p)") auto
    then show ?thesis
    proof cases
      case plain
      show ?thesis
      proof (rule keep [where k = 1])
        show "parse_step pf p = p\<lparr>pos := pos p + 1, currentLiteral := ?L @ [pattern p ! pos p]\<rparr>"
          using literal_keep [of p pf] less.prems(1) True plain by simp
        show "parse_step pf ?p0 = ?p0\<lparr>pos := pos p + 1, currentLiteral := [pattern p ! pos p]\<rparr>"
          using literal_keep [of ?p0 pf] less.prems(1) True plain by simp
        show "1 \<le> (1::nat)" by simp
        show "pos p + 1 \<le> length (pattern p)" using True by simp
      qed
    next
      case escape
      show ?thesis
      proof (rule keep [where k = 2])
        show "parse_step pf p = p\<lparr>pos := pos p + 2, currentLiteral := ?L
                @ [if pattern p ! Suc (pos p) = ESCAPE_CHAR then ESCAPE_CHAR else CHR 0x0A]\<rparr>"
          using literal_escape [of p pf] less.prems(1) escape by simp
        show "parse_step pf ?p0 = ?p0\<lparr>pos := pos p + 2, currentLiteral :=
                [if pattern p ! Suc (pos p) = ESCAPE_CHAR then ESCAPE_CHAR else CHR 0x0A]\<rparr>"
          using literal_escape [of ?p0 pf] less.prems(1) escape by simp
        show "1 \<le> (2::nat)" by simp
        show "pos p + 2 \<le> length (pattern p)" using escape(1) by simp
      qed
    next
      case specifier
      let ?q = "p\<lparr>pos := Suc (pos p), currentLiteral := [ESCAPE_CHAR], state := CONVERTER_STATE,
                  formattingInfo := reset (formattingInfo p), list := []\<rparr>"
      have s1: "parse_step pf p
          = ?q\<lparr>list := (if ?L \<noteq> [] then [Some (LiteralPatternConverter ?L)] else []) @ list ?q\<rparr>"
        using literal_start_specifier [of p pf] less.prems(1,2) specifier by simp
      have s0: "parse_step pf ?p0 = ?q"
        using literal_start_specifier [of ?p0 pf] less.prems(1,2) specifier by simp
      have "compile_from pf p
          = (if ?L \<noteq> [] then [Some (LiteralPatternConverter ?L)] else []) @ compile_from pf ?q"
        using compile_from_step [of p pf] True
        by (simp only: s1 compile_from_list)
      moreover have "compile_from pf ?p0 = compile_from pf ?q"
        using compile_from_step [of ?p0 pf] True by (simp add: s0)
      ultimately show ?thesis
        using L by (simp add: format_all_literal prepend_Nil del: format_all.simps)
    qed
  qed
qed


lemma iter_pattern: "pattern ((parse_step pf ^^ n) q) = pattern q"
  by (induction n) (simp_all add: parse_step_pattern)

lemma parse_loop_iter:
  "pos ((parse_step pf ^^ n) q) < length (pattern q) \<Longrightarrow>
     parse_loop pf q = parse_loop pf ((parse_step pf ^^ n) q)"
proof (induction n)
  case 0
  show ?case by simp
next
  case (Suc n)
  let ?r = "(parse_step pf ^^ n) q"
  have lt: "pos ?r < length (pattern q)"
    using Suc.prems parse_step_pos [of ?r pf] by simp
  then have "parse_loop pf q = parse_loop pf ?r"
    by (rule Suc.IH)
  also have "\<dots> = parse_loop pf (parse_step pf ?r)"
    using lt by (simp add: parse_loop.simps [of pf ?r] iter_pattern)
  finally show ?case by simp
qed

lemma finalizeConverter_currentLiteral: "currentLiteral (finalizeConverter pf c p) = []"
  by (simp add: finalizeConverter_def split_beta Let_def)

lemma parse_step_currentLiteral:
  "length (currentLiteral p) \<le> pos p \<Longrightarrow>
     length (currentLiteral (parse_step pf p)) \<le> pos (parse_step pf p)"
  by (cases "state p")
     (auto simp add: parse_step_def Let_def finalizeConverter_currentLiteral)

lemma iter_currentLiteral:
  "length (currentLiteral q) \<le> pos q \<Longrightarrow>
     length (currentLiteral ((parse_step pf ^^ n) q)) \<le> pos ((parse_step pf ^^ n) q)"
  by (induction n) (simp_all add: parse_step_currentLiteral)

lemma extractOption_no_null: "list (snd (extractOption p)) = list p"
  by (simp add: extractOption_def split: option.splits)

lemma finalizeConverter_no_null:
  "None \<notin> set (list p) \<Longrightarrow> None \<notin> set (list (finalizeConverter pf c p))"
  by (simp add: finalizeConverter_def extractPrecisionOption_def basic_def extractOption_no_null
      split_beta Let_def)

lemma parse_step_no_null:
  "None \<notin> set (list p) \<Longrightarrow> None \<notin> set (list (parse_step pf p))"
proof -
  assume a: "None \<notin> set (list p)"
  have f: "None \<notin> set (list (finalizeConverter pf c (p\<lparr>pos := n, currentLiteral := cl\<rparr>)))"
    for c n cl
    by (rule finalizeConverter_no_null) (simp add: a)
  show ?thesis
    using a by (cases "state p") (auto simp add: parse_step_def Let_def f)
qed

lemma parse_loop_no_null:
  "None \<notin> set (list p) \<Longrightarrow> None \<notin> set (list (parse_loop pf p))"
proof (induction pf p rule: parse_loop.induct)
  case (1 pf p)
  show ?case
  proof (cases "pos p < length (pattern p)")
    case True
    then show ?thesis
      using "1.IH" [OF True] "1.prems" by (simp add: parse_loop.simps [of pf p] parse_step_no_null)
  next
    case False
    then show ?thesis
      using "1.prems" by (simp add: parse_loop.simps [of pf p])
  qed
qed

lemma parser_builds_no_null: "None \<notin> set (list (parse pf (new_PatternParser pat)))"
proof -
  have "None \<notin> set (list (parse_loop pf ((new_PatternParser pat)\<lparr>pos := 0\<rparr>)))"
    by (rule parse_loop_no_null) (simp add: new_PatternParser_def)
  then show ?thesis
    by (simp add: parse_def Let_def)
qed

lemma replace_nulls_id: "None \<notin> set xs \<Longrightarrow> replace_nulls xs = (xs, [])"
proof (induction xs)
  case Nil
  show ?case by simp
next
  case (Cons it rest)
  then show ?case by (cases it) auto
qed

lemma list_parse: "list (parse pf (new_PatternParser pat)) = compile_from pf (new_PatternParser pat)"
  by (simp add: parse_def compile_from_def Let_def new_PatternParser_def)

lemma layout_renders_compiled:
  "compile_from pf (new_PatternParser pat) \<noteq> [] \<Longrightarrow>
     PatternLayout_formatAndAppend pf (fst (init pf pat)) event
       = format_all pf (compile_from pf (new_PatternParser pat)) event"
  using replace_nulls_id [OF parser_builds_no_null, of pf pat]
  by (simp add: PatternLayout_formatAndAppend_def init_def validate_def Let_def list_parse)


text \<open>
  C4. Let the parser, after some iterations of its loop on a pattern, be in the Literal
  state in front of \<open>%%\<close> or \<open>%n\<close>. Then for every event the layout's output is the
  output of the converters built so far, the pending literal, exactly one \<open>%\<close>
  (respectively one newline), and the output of the converters built from the rest of
  the pattern; no width modifier applies to that character.
\<close>

theorem escapes_render_one_character:
  assumes "p = (parse_step pf ^^ n) (new_PatternParser pat)"
    and "state p = LITERAL_STATE"
    and "Suc (pos p) < length pat"
    and "pat ! pos p = CHR ''%''"
    and "pat ! Suc (pos p) = CHR ''%'' \<or> pat ! Suc (pos p) = CHR ''n''"
    and "length pat < 2147483648"
  shows "PatternLayout_formatAndAppend pf (fst (init pf pat)) event
       = (case format_all pf (list p) event of
            Inl e \<Rightarrow> Inl e
          | Inr a \<Rightarrow>
              prepend (a @ currentLiteral p
                         @ [if pat ! Suc (pos p) = CHR ''%'' then CHR ''%'' else CHR 0x0A])
                (format_all pf
                   (compile_from pf (p\<lparr>pos := Suc (Suc (pos p)), currentLiteral := [], list := []\<rparr>))
                   event))"
proof -
  define x where "x = (if pat ! Suc (pos p) = CHR ''%'' then CHR ''%'' else CHR 0x0A)"
  let ?L = "currentLiteral p"
  let ?s = "p\<lparr>pos := Suc (Suc (pos p)), currentLiteral := ?L @ [x]\<rparr>"
  let ?r = "p\<lparr>pos := Suc (Suc (pos p)), currentLiteral := ?L @ [x], list := []\<rparr>"
  let ?z = "p\<lparr>pos := Suc (Suc (pos p)), currentLiteral := [], list := []\<rparr>"
  have pat: "pattern p = pat"
    by (simp add: assms(1) iter_pattern new_PatternParser_def)
  have cl: "length ?L \<le> pos p"
    unfolding assms(1) by (rule iter_currentLiteral) (simp add: new_PatternParser_def)
  have pn: "pattern (new_PatternParser pat) = pat"
    by (simp add: new_PatternParser_def)
  have "pos ((parse_step pf ^^ n) (new_PatternParser pat)) < length (pattern (new_PatternParser pat))"
    using assms(3) unfolding pn assms(1) by simp
  then have "parse_loop pf (new_PatternParser pat) = parse_loop pf p"
    unfolding assms(1) by (rule parse_loop_iter)
  then have c1: "compile_from pf (new_PatternParser pat) = compile_from pf p"
    by (simp add: compile_from_def)
  have c2: "compile_from pf p = compile_from pf (parse_step pf p)"
    using assms(3) by (simp add: compile_from_step pat)
  have st: "parse_step pf p = ?s"
    using literal_escape [of p pf] assms(2-5) by (auto simp add: pat ESCAPE_CHAR_def x_def)
  have c3: "compile_from pf ?s = list ?s @ compile_from pf (?s\<lparr>list := []\<rparr>)"
    by (rule compile_from_list_Nil)
  have c: "compile_from pf (new_PatternParser pat) = list p @ compile_from pf ?r"
    using c3 by (simp add: c1 c2 st)
  have r: "format_all pf (compile_from pf ?r) event
      = prepend (?L @ [x]) (format_all pf (compile_from pf ?z) event)"
  proof -
    have b: "length (currentLiteral ?r) + (length (pattern ?r) - pos ?r) < 2147483648"
      using cl assms(3,6) pat by simp
    have "format_all pf (compile_from pf ?r) event
        = prepend (currentLiteral ?r)
            (format_all pf (compile_from pf (?r\<lparr>currentLiteral := []\<rparr>)) event)"
      by (rule pending_literal_first) (use assms(2) b in simp_all)
    moreover have "?r\<lparr>currentLiteral := []\<rparr> = ?z"
      by (rule PatternParser.equality) simp_all
    ultimately show ?thesis by simp
  qed
  then have "format_all pf (compile_from pf ?r) event \<noteq> Inr []"
    by (simp add: prepend_def split: sum.splits)
  then have "compile_from pf ?r \<noteq> []"
    by auto
  then have "compile_from pf (new_PatternParser pat) \<noteq> []"
    by (simp add: c)
  then have "PatternLayout_formatAndAppend pf (fst (init pf pat)) event
      = format_all pf (list p @ compile_from pf ?r) event"
    by (simp add: layout_renders_compiled c)
  then have "PatternLayout_formatAndAppend pf (fst (init pf pat)) event
       = (case format_all pf (list p) event of
            Inl e \<Rightarrow> Inl e
          | Inr a \<Rightarrow> prepend (a @ ?L @ [x]) (format_all pf (compile_from pf ?z) event))"
    by (simp add: format_all_append r prepend_def split: sum.splits)
  then show ?thesis
    unfolding x_def .
qed


theorem escapes_render_one_character_witness:
  "state ((parse_step sample_platform ^^ 2) (new_PatternParser ''%m%n'')) = LITERAL_STATE
   \<and> pos ((parse_step sample_platform ^^ 2) (new_PatternParser ''%m%n'')) = 2
   \<and> ''%m%n'' ! 2 = CHR ''%'' \<and> ''%m%n'' ! 3 = CHR ''n''
   \<and> PatternLayout_formatAndAppend sample_platform (fst (init sample_platform ''%m%n'')) sample_event
       = Inr (''started'' @ [CHR 0x0A])
   \<and> state ((parse_step sample_platform ^^ 4) (new_PatternParser ''%-5p%%%m'')) = LITERAL_STATE
   \<and> pos ((parse_step sample_platform ^^ 4) (new_PatternParser ''%-5p%%%m'')) = 4
   \<and> ''%-5p%%%m'' ! 4 = CHR ''%'' \<and> ''%-5p%%%m'' ! 5 = CHR ''%''
   \<and> PatternLayout_formatAndAppend sample_platform (fst (init sample_platform ''%-5p%%%m'')) sample_event
       = Inr ''INFO %started''"
proof -
  let ?m = "BasicPatternConverter new_FormattingInfo 1000 MESSAGE_CONVERTER"
  let ?l = "BasicPatternConverter \<lparr>minLen = 5, maxLen = 0x7FFFFFFF, leftAlign = True\<rparr> 1000
              LOGLEVEL_CONVERTER"
  let ?p = "\<lparr>pattern = ''%m%n'', formattingInfo = new_FormattingInfo, list = [Some ?m],
             state = LITERAL_STATE, pos = 2, currentLiteral = [], diag = []\<rparr>"
  let ?q = "\<lparr>pattern = ''%-5p%%%m'', formattingInfo = new_FormattingInfo, list = [Some ?l],
             state = LITERAL_STATE, pos = 4, currentLiteral = [], diag = []\<rparr>"
  have p: "(parse_step sample_platform ^^ 2) (new_PatternParser ''%m%n'') = ?p"
    by (simp add: numeral_2_eq_2 new_PatternParser_def parse_step_def Let_def ESCAPE_CHAR_def
        is_digit_def finalizeConverter_def basic_def new_BasicPatternConverter_def reset_def
        new_FormattingInfo_def sample_platform_def MILLIS_PER_SEC_def signed_divide_int_def)
  have q: "(parse_step sample_platform ^^ 4) (new_PatternParser ''%-5p%%%m'') = ?q"
    by (simp add: numeral_eq_Suc new_PatternParser_def parse_step_def Let_def ESCAPE_CHAR_def
        is_digit_def digit_val_def finalizeConverter_def basic_def new_BasicPatternConverter_def
        reset_def new_FormattingInfo_def sample_platform_def MILLIS_PER_SEC_def
        signed_divide_int_def)
  have rp: "compile_from sample_platform
        \<lparr>pattern = ''%m%n'', formattingInfo = new_FormattingInfo, list = [],
         state = LITERAL_STATE, pos = 4, currentLiteral = [], diag = []\<rparr> = []"
    by (simp add: compile_from_def parse_loop.simps)
  have rq: "compile_from sample_platform
        \<lparr>pattern = ''%-5p%%%m'', formattingInfo = new_FormattingInfo, list = [],
         state = LITERAL_STATE, pos = 6, currentLiteral = [], diag = []\<rparr> = [Some ?m]"
    by (simp add: compile_from_def parse_loop.simps parse_step_def Let_def ESCAPE_CHAR_def
        is_digit_def finalizeConverter_def basic_def new_BasicPatternConverter_def reset_def
        new_FormattingInfo_def sample_platform_def MILLIS_PER_SEC_def signed_divide_int_def)
  have fm: "PatternConverter_formatAndAppend sample_platform ?m sample_event = Inr ''started''"
    by (simp add: PatternConverter_formatAndAppend_def to_int_def new_FormattingInfo_def reset_def
        sample_event_def)
  have fl: "PatternConverter_formatAndAppend sample_platform ?l sample_event = Inr ''INFO ''"
    by (simp add: PatternConverter_formatAndAppend_def to_int_def sample_platform_def
        sample_event_def)
  have "PatternLayout_formatAndAppend sample_platform (fst (init sample_platform ''%m%n'')) sample_event
       = Inr (''started'' @ [CHR 0x0A])"
    using escapes_render_one_character [where p = ?p and pf = sample_platform and n = 2
        and pat = "''%m%n''" and event = sample_event]
    by (simp add: p rp fm prepend_def)
  moreover have "PatternLayout_formatAndAppend sample_platform (fst (init sample_platform ''%-5p%%%m''))
        sample_event = Inr ''INFO %started''"
    using escapes_render_one_character [where p = ?q and pf = sample_platform and n = 4
        and pat = "''%-5p%%%m''" and event = sample_event]
    by (simp add: q rq fm fl prepend_def)
  ultimately show ?thesis
    by (simp add: p q)
qed

theorem escapes_render_one_character_counterexample:
  "PatternLayout_formatAndAppend sample_platform (fst (init sample_platform ''%5n'')) sample_event
     = Inr (''    '' @ [CHR 0x0A])
   \<and> PatternLayout_formatAndAppend sample_platform (fst (init sample_platform ''%.0n'')) sample_event
     = Inr []"
  by (simp add: PatternLayout_formatAndAppend_def init_def validate_def parse_def new_PatternParser_def
      parse_loop.simps parse_step_def Let_def ESCAPE_CHAR_def is_digit_def digit_val_def reset_def
      new_FormattingInfo_def finalizeConverter_def basic_def new_BasicPatternConverter_def
      PatternConverter_formatAndAppend_def to_int_def substr_def sample_platform_def
      MILLIS_PER_SEC_def signed_divide_int_def numeral_eq_Suc)

section \<open>The specification's end-to-end examples\<close>

lemma end_to_end_level_logger_message:
  "PatternLayout_formatAndAppend sample_platform (fst (init sample_platform ''%-5p %c{2}: %m%n''))
     sample_event = Inr (''INFO  acme.Service: started'' @ [CHR 0x0A])"
proof -
  have "parsedPattern (fst (init sample_platform ''%-5p %c{2}: %m%n''))
      = [Some (BasicPatternConverter \<lparr>minLen = 5, maxLen = 0x7FFFFFFF, leftAlign = True\<rparr> 1000
                 LOGLEVEL_CONVERTER),
         Some (LiteralPatternConverter '' ''),
         Some (LoggerPatternConverter new_FormattingInfo 2),
         Some (LiteralPatternConverter '': ''),
         Some (BasicPatternConverter new_FormattingInfo 1000 MESSAGE_CONVERTER),
         Some (LiteralPatternConverter [CHR 0x0A])]"
    by (simp add: init_def validate_def parse_def new_PatternParser_def parse_loop.simps parse_step_def Let_def
        ESCAPE_CHAR_def is_digit_def digit_val_def reset_def new_FormattingInfo_def
        finalizeConverter_def basic_def new_BasicPatternConverter_def extractPrecisionOption_def
        extractOption_def find_first_of_def substr_n_def atoi_def isspace_def to_int_def
        sample_platform_def MILLIS_PER_SEC_def signed_divide_int_def)
  then show ?thesis
    by (simp add: PatternLayout_formatAndAppend_def PatternConverter_formatAndAppend_def
        LoggerPatternConverter_convert_def rfind_def size_t_of_int_def substr_def to_int_def
        new_FormattingInfo_def reset_def sample_platform_def sample_event_def numeral_2_eq_2)
qed

lemma end_to_end_date_thread_level_message:
  "PatternLayout_formatAndAppend sample_platform
     (fst (init sample_platform ''%d{%Y-%m-%d} [%t] %p - %m%n'')) sample_event
     = Inr (''1970-01-01 [1234] INFO - started'' @ [CHR 0x0A])"
proof -
  have "parsedPattern (fst (init sample_platform ''%d{%Y-%m-%d} [%t] %p - %m%n''))
      = [Some (DatePatternConverter new_FormattingInfo ''%Y-%m-%d'' True),
         Some (LiteralPatternConverter '' [''),
         Some (BasicPatternConverter new_FormattingInfo 1000 THREAD_CONVERTER),
         Some (LiteralPatternConverter ''] ''),
         Some (BasicPatternConverter new_FormattingInfo 1000 LOGLEVEL_CONVERTER),
         Some (LiteralPatternConverter '' - ''),
         Some (BasicPatternConverter new_FormattingInfo 1000 MESSAGE_CONVERTER),
         Some (LiteralPatternConverter [CHR 0x0A])]"
    by (simp add: init_def validate_def parse_def new_PatternParser_def parse_loop.simps parse_step_def Let_def
        ESCAPE_CHAR_def is_digit_def digit_val_def reset_def new_FormattingInfo_def
        finalizeConverter_def basic_def new_BasicPatternConverter_def
        extractOption_def find_first_of_def substr_n_def
        sample_platform_def MILLIS_PER_SEC_def signed_divide_int_def)
  then show ?thesis
    by (simp add: PatternLayout_formatAndAppend_def PatternConverter_formatAndAppend_def
        DatePatternConverter_convert_def strftime_def BUFFER_SIZE_def to_int_def
        new_FormattingInfo_def reset_def sample_platform_def sample_event_def)
qed

end
